theory Spec2Isabelle
  imports Complex_Main
begin

section \<open>Conventions of the embedding\<close>

text \<open>
  The deal engine is Python. Its \<^verbatim>\<open>int\<close> values are modelled as \<^typ>\<open>int\<close>, its
  \<^verbatim>\<open>float\<close> values as \<^typ>\<open>real\<close> (exact arithmetic: rounding of binary floating point is
  not modelled), \<^verbatim>\<open>Optional[T]\<close> as \<^typ>\<open>'a option\<close>, strings as \<^typ>\<open>string\<close> (ASCII),
  dataclasses as records and enums as datatypes. An exception is a value of type
  \<open>py_error\<close> on the left of a sum. Output fields that carry only formatted prose
  (explanations, titles, remedies, summaries) are left out of the records; every field
  that a decision or a number depends on is kept. Where two records of the source have
  a field of the same name, the fields carry a short prefix here (\<open>sf_score\<close>,
  \<open>fr_score\<close>, \<open>ps_score\<close>); the weight \<open>risk_profile\<close> of \<open>ScoringWeights\<close> is the
  field \<open>risk_profile_weight\<close>, its dictionary key stays \<open>risk_profile\<close>.
\<close>

datatype py_error = ZeroDivisionError | KeyError string

text \<open>Python truthiness of an optional number: \<^verbatim>\<open>None\<close> and zero are both falsy.\<close>

definition truthy_int :: "int option \<Rightarrow> bool" where
  "truthy_int x = (case x of None \<Rightarrow> False | Some v \<Rightarrow> v \<noteq> 0)"

definition truthy_real :: "real option \<Rightarrow> bool" where
  "truthy_real x = (case x of None \<Rightarrow> False | Some v \<Rightarrow> v \<noteq> 0)"

text \<open>\<^verbatim>\<open>int(x)\<close> on a float truncates towards zero.\<close>

definition py_int :: "real \<Rightarrow> int" where
  "py_int x = (if 0 \<le> x then \<lfloor>x\<rfloor> else \<lceil>x\<rceil>)"

section \<open>Python string operations\<close>

text \<open>
  \<^verbatim>\<open>str.upper\<close>, \<^verbatim>\<open>str.lower\<close>, \<^verbatim>\<open>str.split()\<close>, \<^verbatim>\<open>str.startswith\<close> and the substring test
  \<^verbatim>\<open>sub in s\<close>, on ASCII text.
\<close>

definition py_upper_char :: "char \<Rightarrow> char" where
  "py_upper_char c =
     (let n = (of_char c :: nat) in if 97 \<le> n \<and> n \<le> 122 then char_of (n - 32) else c)"

definition py_lower_char :: "char \<Rightarrow> char" where
  "py_lower_char c =
     (let n = (of_char c :: nat) in if 65 \<le> n \<and> n \<le> 90 then char_of (n + 32) else c)"

definition py_upper :: "string \<Rightarrow> string" where
  "py_upper s = map py_upper_char s"

definition py_lower :: "string \<Rightarrow> string" where
  "py_lower s = map py_lower_char s"

definition py_isspace :: "char \<Rightarrow> bool" where
  "py_isspace c =
     (let n = (of_char c :: nat) in (9 \<le> n \<and> n \<le> 13) \<or> (28 \<le> n \<and> n \<le> 32))"

text \<open>\<open>split_acc cur s\<close>: the words of \<open>s\<close>, with \<open>cur\<close> the reversed word being read.\<close>

fun split_acc :: "string \<Rightarrow> string \<Rightarrow> string list" where
  "split_acc cur [] = (if cur = [] then [] else [rev cur])"
| "split_acc cur (c # cs) =
     (if py_isspace c
      then (if cur = [] then split_acc [] cs else rev cur # split_acc [] cs)
      else split_acc (c # cur) cs)"

definition py_split :: "string \<Rightarrow> string list" where
  "py_split s = split_acc [] s"

definition py_startswith :: "string \<Rightarrow> string \<Rightarrow> bool" where
  "py_startswith s p = (take (length p) s = p)"

fun py_contains :: "string \<Rightarrow> string \<Rightarrow> bool" where
  "py_contains sub [] = (sub = [])"
| "py_contains sub (c # cs) = (py_startswith (c # cs) sub \<or> py_contains sub cs)"

section \<open>Mandates (core/mandate.py)\<close>

datatype AssetClass =
  RESIDENTIAL | COMMERCIAL | MIXED_USE | INDUSTRIAL | RETAIL | OFFICE | HOSPITALITY
  | STUDENT_HOUSING | SENIOR_LIVING | BTR | HMO

datatype RiskProfile = CORE | CORE_PLUS | VALUE_ADD | OPPORTUNISTIC

record GeographicCriteria =
  regions :: "string list"
  postcodes :: "string list"
  exclude_regions :: "string list"
  exclude_postcodes :: "string list"

text \<open>Of the financial criteria, the fields the pipeline reads.\<close>

record FinancialCriteria =
  min_deal_size :: "int option"
  max_deal_size :: "int option"
  min_yield :: "real option"
  target_yield :: "real option"
  max_price_psf :: "real option"

record PropertyCriteria =
  min_units :: "int option"
  max_units :: "int option"
  accept_refurbishment :: bool
  accept_development :: bool
  accept_turnkey :: bool
  freehold_only :: bool
  min_lease_years :: "int option"

record ScoringWeights =
  location_region :: real
  location_postcode :: real
  price_range :: real
  price_psf :: real
  yield_minimum :: real
  yield_target :: real
  property_size :: real
  property_condition :: real
  property_tenure :: real
  risk_profile_weight :: real

text \<open>A weights dictionary \<^verbatim>\<open>dict[str, float]\<close> is a map from key to value.\<close>

type_synonym weights_dict = "string \<Rightarrow> real option"

definition to_dict :: "ScoringWeights \<Rightarrow> weights_dict" where
  "to_dict w = map_of
     [(''location_region'', location_region w),
      (''location_postcode'', location_postcode w),
      (''price_range'', price_range w),
      (''price_psf'', price_psf w),
      (''yield_minimum'', yield_minimum w),
      (''yield_target'', yield_target w),
      (''property_size'', property_size w),
      (''property_condition'', property_condition w),
      (''property_tenure'', property_tenure w),
      (''risk_profile'', risk_profile_weight w)]"

record DealCriteria =
  min_overall_score :: real
  pursue_score_threshold :: real
  consider_score_threshold :: real
  high_conviction_threshold :: real
  medium_conviction_threshold :: real
  low_conviction_threshold :: real

record Mandate =
  mandate_id :: string
  asset_classes :: "AssetClass list"
  risk_profile :: RiskProfile
  geographic :: GeographicCriteria
  financial :: FinancialCriteria
  property :: PropertyCriteria
  deal_criteria :: DealCriteria
  scoring_weights :: ScoringWeights
  priority :: int

definition accepts_asset_class :: "Mandate \<Rightarrow> AssetClass \<Rightarrow> bool" where
  "accepts_asset_class m ac =
     (if asset_classes m = [] then True else ac \<in> set (asset_classes m))"

definition accepts_location :: "Mandate \<Rightarrow> string \<Rightarrow> string \<Rightarrow> bool" where
  "accepts_location m rgn pcode =
     (let geo = geographic m in
      if rgn \<in> set (exclude_regions geo) then False
      else if list_ex (\<lambda>exc. py_startswith (py_upper pcode) (py_upper exc)) (exclude_postcodes geo)
      then False
      else if regions geo = [] \<and> postcodes geo = [] then True
      else
        (let region_match = (regions geo = [] \<or> rgn \<in> set (regions geo));
             postcode_match = (postcodes geo = [] \<or>
               list_ex (\<lambda>pc. py_startswith (py_upper pcode) (py_upper pc)) (postcodes geo))
         in region_match \<or> postcode_match))"

section \<open>Listings (core/listing.py)\<close>

datatype Tenure = FREEHOLD | LEASEHOLD | SHARE_OF_FREEHOLD | COMMONHOLD | TENURE_UNKNOWN

datatype Condition = TURNKEY | LIGHT_REFURB | HEAVY_REFURB | DEVELOPMENT | CONDITION_UNKNOWN

record Address =
  region :: string
  postcode :: string

record FinancialDetails =
  asking_price :: int
  current_rent :: "int option"
  gross_yield :: "real option"
  price_per_sqft :: "real option"
  lease_years_remaining :: "int option"

record PropertyDetails =
  unit_count :: int
  condition :: Condition
  has_tenants :: bool

record Listing =
  listing_id :: string
  asset_class :: AssetClass
  tenure :: Tenure
  address :: Address
  listing_financial :: FinancialDetails
  property_details :: PropertyDetails

definition postcode_area :: "Listing \<Rightarrow> string" where
  "postcode_area l =
     (if postcode (address l) = [] then []
      else (case py_split (py_upper (postcode (address l))) of
              [] \<Rightarrow> []
            | part # _ \<Rightarrow> part))"

definition listing_region :: "Listing \<Rightarrow> string" where
  "listing_region l = region (address l)"

definition listing_asking_price :: "Listing \<Rightarrow> int" where
  "listing_asking_price l = asking_price (listing_financial l)"

definition listing_gross_yield :: "Listing \<Rightarrow> real option" where
  "listing_gross_yield l =
     (let fin = listing_financial l in
      if truthy_real (gross_yield fin) then gross_yield fin
      else (case current_rent fin of
              None \<Rightarrow> None
            | Some rent \<Rightarrow>
                if rent \<noteq> 0 \<and> asking_price fin \<noteq> 0
                then Some (of_int rent / of_int (asking_price fin) * 100)
                else None))"

section \<open>Scoring engine (core/scoring.py)\<close>

datatype ScoreCategory = SC_LOCATION | SC_PRICE | SC_YIELD | SC_PROPERTY | SC_RISK

record ScoreFactor =
  sf_category :: ScoreCategory
  sf_name :: string
  sf_score :: real
  sf_weight :: real
  weighted_score :: real

record ScoringResult =
  sr_listing_id :: string
  sr_mandate_id :: string
  total_score :: real
  match_grade :: string
  factors :: "ScoreFactor list"
  passes_hard_filters :: bool

definition DEFAULT_WEIGHTS :: weights_dict where
  "DEFAULT_WEIGHTS = map_of
     [(''location_region'', 15 / 100),
      (''location_postcode'', 10 / 100),
      (''price_range'', 20 / 100),
      (''price_psf'', 5 / 100),
      (''yield_minimum'', 15 / 100),
      (''yield_target'', 10 / 100),
      (''property_size'', 5 / 100),
      (''property_condition'', 10 / 100),
      (''property_tenure'', 5 / 100),
      (''risk_profile'', 5 / 100)]"

definition calculate_grade :: "real \<Rightarrow> string" where
  "calculate_grade sc =
     (if sc \<ge> 90 then ''A''
      else if sc \<ge> 75 then ''B''
      else if sc \<ge> 60 then ''C''
      else if sc \<ge> 40 then ''D''
      else ''F'')"

text \<open>
  \<^verbatim>\<open>ScoreFactor(category=c, name=n, score=s, weight=weights[k], weighted_score=s * weights[k])\<close>:
  the subscript raises \<^verbatim>\<open>KeyError\<close> on a missing key.
\<close>

definition make_factor ::
  "ScoreCategory \<Rightarrow> string \<Rightarrow> real \<Rightarrow> weights_dict \<Rightarrow> string \<Rightarrow> py_error + ScoreFactor" where
  "make_factor cat nm sc weights k =
     (case weights k of
        None \<Rightarrow> Inl (KeyError k)
      | Some w \<Rightarrow>
          Inr \<lparr>sf_category = cat, sf_name = nm, sf_score = sc, sf_weight = w,
               weighted_score = sc * w\<rparr>)"

text \<open>Sequencing of two computations that may raise: the first exception wins.\<close>

definition then_factors ::
  "py_error + ScoreFactor list \<Rightarrow> py_error + ScoreFactor list \<Rightarrow> py_error + ScoreFactor list" where
  "then_factors a b =
     (case a of Inl e \<Rightarrow> Inl e
      | Inr xs \<Rightarrow> (case b of Inl e \<Rightarrow> Inl e | Inr ys \<Rightarrow> Inr (xs @ ys)))"

definition one_factor :: "py_error + ScoreFactor \<Rightarrow> py_error + ScoreFactor list" where
  "one_factor a = (case a of Inl e \<Rightarrow> Inl e | Inr f \<Rightarrow> Inr [f])"

subsection \<open>Location\<close>

definition region_score :: "Listing \<Rightarrow> Mandate \<Rightarrow> real" where
  "region_score l m =
     (let geo = geographic m in
      if regions geo = [] then 1
      else if listing_region l \<in> set (regions geo) then 1
      else if listing_region l \<in> set (exclude_regions geo) then 0
      else 3 / 10)"

definition postcode_score :: "Listing \<Rightarrow> Mandate \<Rightarrow> real" where
  "postcode_score l m =
     (let geo = geographic m; area = postcode_area l in
      if postcodes geo = [] then 1
      else if list_ex (\<lambda>pc. py_startswith area (py_upper pc)) (postcodes geo) then 1
      else if list_ex (\<lambda>pc. py_startswith area (py_upper pc)) (exclude_postcodes geo) then 0
      else 5 / 10)"

definition score_location :: "Listing \<Rightarrow> Mandate \<Rightarrow> weights_dict \<Rightarrow> py_error + ScoreFactor list" where
  "score_location l m weights =
     then_factors
       (one_factor (make_factor SC_LOCATION ''region_match'' (region_score l m) weights ''location_region''))
       (one_factor (make_factor SC_LOCATION ''postcode_match'' (postcode_score l m) weights ''location_postcode''))"

subsection \<open>Price\<close>

text \<open>
  The price-range sub-score. With both bounds set and the price inside them the source
  divides by \<open>max_size - min_size\<close>, which raises \<^verbatim>\<open>ZeroDivisionError\<close> when the two
  bounds coincide.
\<close>

definition price_range_score :: "Listing \<Rightarrow> Mandate \<Rightarrow> py_error + real" where
  "price_range_score l m =
     (let fin = financial m; price = listing_asking_price l in
      if truthy_int (min_deal_size fin) \<and> truthy_int (max_deal_size fin) then
        (case (min_deal_size fin, max_deal_size fin) of
           (Some min_size, Some max_size) \<Rightarrow>
             if min_size \<le> price \<and> price \<le> max_size then
               (if max_size - min_size = 0 then Inl ZeroDivisionError
                else
                  (let range_position = of_int (price - min_size) / of_int (max_size - min_size)
                   in Inr (1 - \<bar>5 / 10 - range_position\<bar> * (4 / 10))))
             else if price < min_size then
               (let shortfall = of_int (min_size - price) / of_int min_size
                in Inr (max 0 (5 / 10 - shortfall)))
             else
               (let excess = of_int (price - max_size) / of_int max_size
                in Inr (max 0 (5 / 10 - excess)))
         | _ \<Rightarrow> Inr 1)
      else if truthy_int (min_deal_size fin) then
        (case min_deal_size fin of
           Some min_size \<Rightarrow>
             if price \<ge> min_size then Inr 1
             else
               (let shortfall = of_int (min_size - price) / of_int min_size
                in Inr (max 0 (7 / 10 - shortfall)))
         | None \<Rightarrow> Inr 1)
      else if truthy_int (max_deal_size fin) then
        (case max_deal_size fin of
           Some max_size \<Rightarrow>
             if price \<le> max_size then Inr 1
             else
               (let excess = of_int (price - max_size) / of_int max_size
                in Inr (max 0 (5 / 10 - excess)))
         | None \<Rightarrow> Inr 1)
      else Inr 1)"

definition psf_score :: "Listing \<Rightarrow> Mandate \<Rightarrow> real" where
  "psf_score l m =
     (let fin = financial m in
      if truthy_real (max_price_psf fin) \<and> truthy_real (price_per_sqft (listing_financial l)) then
        (case (max_price_psf fin, price_per_sqft (listing_financial l)) of
           (Some max_psf, Some psf) \<Rightarrow>
             if psf \<le> max_psf then 1
             else (let excess = (psf - max_psf) / max_psf in max 0 (8 / 10 - excess))
         | _ \<Rightarrow> 1)
      else 1)"

definition score_price :: "Listing \<Rightarrow> Mandate \<Rightarrow> weights_dict \<Rightarrow> py_error + ScoreFactor list" where
  "score_price l m weights =
     then_factors
       (case price_range_score l m of
          Inl e \<Rightarrow> Inl e
        | Inr price_score \<Rightarrow>
            one_factor (make_factor SC_PRICE ''price_range'' price_score weights ''price_range''))
       (one_factor (make_factor SC_PRICE ''price_psf'' (psf_score l m) weights ''price_psf''))"

subsection \<open>Yield\<close>

definition min_yield_score :: "Listing \<Rightarrow> Mandate \<Rightarrow> real" where
  "min_yield_score l m =
     (let fin = financial m in
      if truthy_real (min_yield fin) then
        (case min_yield fin of
           Some min_y \<Rightarrow>
             (case listing_gross_yield l of
                None \<Rightarrow> 5 / 10
              | Some listing_yield \<Rightarrow>
                  if listing_yield \<ge> min_y then 1
                  else (let shortfall = (min_y - listing_yield) / min_y
                        in max 0 (7 / 10 - shortfall)))
         | None \<Rightarrow> 1)
      else 1)"

definition target_yield_score :: "Listing \<Rightarrow> Mandate \<Rightarrow> real" where
  "target_yield_score l m =
     (let fin = financial m in
      if truthy_real (target_yield fin) then
        (case target_yield fin of
           Some target_y \<Rightarrow>
             (case listing_gross_yield l of
                None \<Rightarrow> 5 / 10
              | Some listing_yield \<Rightarrow>
                  if listing_yield \<ge> target_y then
                    (let excess = (listing_yield - target_y) / target_y
                     in min 1 (9 / 10 + excess * (2 / 10)))
                  else
                    (let shortfall = (target_y - listing_yield) / target_y
                     in max (3 / 10) (9 / 10 - shortfall)))
         | None \<Rightarrow> 1)
      else 1)"

definition score_yield :: "Listing \<Rightarrow> Mandate \<Rightarrow> weights_dict \<Rightarrow> py_error + ScoreFactor list" where
  "score_yield l m weights =
     then_factors
       (one_factor (make_factor SC_YIELD ''yield_minimum'' (min_yield_score l m) weights ''yield_minimum''))
       (one_factor (make_factor SC_YIELD ''yield_target'' (target_yield_score l m) weights ''yield_target''))"

subsection \<open>Property\<close>

definition size_score :: "Listing \<Rightarrow> Mandate \<Rightarrow> real" where
  "size_score l m =
     (let pm = property m; units = unit_count (property_details l) in
      if truthy_int (min_units pm) \<or> truthy_int (max_units pm) then
        (if truthy_int (min_units pm) \<and> (case min_units pm of Some mn \<Rightarrow> units < mn | None \<Rightarrow> False)
         then 5 / 10
         else if truthy_int (max_units pm) \<and> (case max_units pm of Some mx \<Rightarrow> units > mx | None \<Rightarrow> False)
         then 5 / 10
         else 1)
      else 1)"

definition condition_score :: "Listing \<Rightarrow> Mandate \<Rightarrow> real" where
  "condition_score l m =
     (let pm = property m; cond = condition (property_details l) in
      if cond = TURNKEY then (if accept_turnkey pm then 1 else 3 / 10)
      else if cond = LIGHT_REFURB \<or> cond = HEAVY_REFURB then
        (if accept_refurbishment pm then 1 else 3 / 10)
      else if cond = DEVELOPMENT then (if accept_development pm then 1 else 2 / 10)
      else 7 / 10)"

definition tenure_score :: "Listing \<Rightarrow> Mandate \<Rightarrow> real" where
  "tenure_score l m =
     (let pm = property m in
      if freehold_only pm then
        (if tenure l = FREEHOLD then 1
         else if tenure l = SHARE_OF_FREEHOLD then 8 / 10
         else 2 / 10)
      else if truthy_int (min_lease_years pm) \<and> tenure l = LEASEHOLD then
        (case (lease_years_remaining (listing_financial l), min_lease_years pm) of
           (None, _) \<Rightarrow> 6 / 10
         | (Some remaining, Some min_lease) \<Rightarrow> if remaining \<ge> min_lease then 1 else 4 / 10
         | (Some remaining, None) \<Rightarrow> 1)
      else 1)"

definition score_property :: "Listing \<Rightarrow> Mandate \<Rightarrow> weights_dict \<Rightarrow> py_error + ScoreFactor list" where
  "score_property l m weights =
     then_factors
       (one_factor (make_factor SC_PROPERTY ''property_size'' (size_score l m) weights ''property_size''))
       (then_factors
          (one_factor (make_factor SC_PROPERTY ''property_condition'' (condition_score l m) weights ''property_condition''))
          (one_factor (make_factor SC_PROPERTY ''property_tenure'' (tenure_score l m) weights ''property_tenure'')))"

subsection \<open>Risk\<close>

fun condition_risk_map :: "Condition \<Rightarrow> RiskProfile" where
  "condition_risk_map TURNKEY = CORE"
| "condition_risk_map LIGHT_REFURB = CORE_PLUS"
| "condition_risk_map HEAVY_REFURB = VALUE_ADD"
| "condition_risk_map DEVELOPMENT = OPPORTUNISTIC"
| "condition_risk_map CONDITION_UNKNOWN = CORE_PLUS"

text \<open>\<^verbatim>\<open>risk_levels.index(p)\<close> for the list CORE, CORE_PLUS, VALUE_ADD, OPPORTUNISTIC.\<close>

fun risk_level_index :: "RiskProfile \<Rightarrow> int" where
  "risk_level_index CORE = 0"
| "risk_level_index CORE_PLUS = 1"
| "risk_level_index VALUE_ADD = 2"
| "risk_level_index OPPORTUNISTIC = 3"

definition risk_score :: "Listing \<Rightarrow> Mandate \<Rightarrow> real" where
  "risk_score l m =
     (let implied_risk = condition_risk_map (condition (property_details l));
          mandate_level = risk_level_index (risk_profile m);
          implied_level = risk_level_index implied_risk;
          level_diff = implied_level - mandate_level
      in if level_diff = 0 then 1
         else if level_diff = 1 then 7 / 10
         else if level_diff = - 1 then 8 / 10
         else if level_diff > 1 then 3 / 10
         else 6 / 10)"

definition score_risk :: "Listing \<Rightarrow> Mandate \<Rightarrow> weights_dict \<Rightarrow> py_error + ScoreFactor list" where
  "score_risk l m weights =
     one_factor (make_factor SC_RISK ''risk_profile'' (risk_score l m) weights ''risk_profile'')"

subsection \<open>The total\<close>

text \<open>
  The optional \<^verbatim>\<open>weights\<close> argument is a dictionary given by its items; it is truthy when
  it is not \<^verbatim>\<open>None\<close> and not empty. \<^verbatim>\<open>{**DEFAULT_WEIGHTS, **weights}\<close> is the default
  dictionary overridden by the items of \<^verbatim>\<open>weights\<close>.
\<close>

definition active_weights :: "Mandate \<Rightarrow> (string \<times> real) list option \<Rightarrow> weights_dict" where
  "active_weights m weights =
     (case weights of
        None \<Rightarrow> to_dict (scoring_weights m)
      | Some ws \<Rightarrow> if ws \<noteq> [] then DEFAULT_WEIGHTS ++ map_of ws else to_dict (scoring_weights m))"

definition score_listing ::
  "Listing \<Rightarrow> Mandate \<Rightarrow> (string \<times> real) list option \<Rightarrow> py_error + ScoringResult" where
  "score_listing l m weights =
     (let aw = active_weights m weights;
          passes = (accepts_asset_class m (asset_class l) \<and>
                    accepts_location m (listing_region l) (postcode_area l))
      in case then_factors (score_location l m aw)
               (then_factors (score_price l m aw)
                 (then_factors (score_yield l m aw)
                   (then_factors (score_property l m aw) (score_risk l m aw)))) of
           Inl e \<Rightarrow> Inl e
         | Inr fs \<Rightarrow>
             (let total_weighted = sum_list (map weighted_score fs);
                  total_weight = sum_list (map sf_weight fs);
                  normalized_score =
                    (if total_weight > 0 then total_weighted / total_weight * 100 else 0);
                  final_score = (if \<not> passes then normalized_score * (3 / 10) else normalized_score)
              in Inr \<lparr>sr_listing_id = listing_id l, sr_mandate_id = mandate_id m,
                      total_score = final_score,
                      match_grade = calculate_grade final_score,
                      factors = fs,
                      passes_hard_filters = passes\<rparr>))"

section \<open>Conviction assessor (core/conviction.py)\<close>

datatype ConvictionLevel = HIGH | MEDIUM | LOW | NONE

record ConvictionFactor =
  cf_name :: string
  met :: bool
  cf_weight :: real

record ConvictionAssessment =
  ca_listing_id :: string
  ca_mandate_id :: string
  level :: ConvictionLevel
  confidence_score :: real
  positive_factors :: "ConvictionFactor list"
  negative_factors :: "ConvictionFactor list"
  neutral_factors :: "ConvictionFactor list"
  recommendation :: string

definition assess_price_conviction :: "Listing \<Rightarrow> Mandate \<Rightarrow> ConvictionFactor list" where
  "assess_price_conviction l m =
     (let fin = financial m; price = listing_asking_price l in
      (if truthy_int (min_deal_size fin) \<and> truthy_int (max_deal_size fin) then
         (case (min_deal_size fin, max_deal_size fin) of
            (Some min_size, Some max_size) \<Rightarrow>
              (let range_size = max_size - min_size;
                   position = (if range_size > 0
                               then of_int (price - min_size) / of_int range_size
                               else (5 / 10 :: real))
               in if 2 / 10 \<le> position \<and> position \<le> 8 / 10 then
                    [\<lparr>cf_name = ''price_positioning'', met = True, cf_weight = 15 / 100\<rparr>]
                  else if position < 2 / 10 then
                    [\<lparr>cf_name = ''price_positioning'', met = True, cf_weight = 10 / 100\<rparr>]
                  else
                    [\<lparr>cf_name = ''price_positioning'', met = False, cf_weight = 10 / 100\<rparr>])
          | _ \<Rightarrow> [])
       else []) @
      (if truthy_real (price_per_sqft (listing_financial l)) \<and> truthy_real (max_price_psf fin) then
         (case (price_per_sqft (listing_financial l), max_price_psf fin) of
            (Some psf, Some max_psf) \<Rightarrow>
              if psf \<le> max_psf * (85 / 100) then
                [\<lparr>cf_name = ''price_psf_value'', met = True, cf_weight = 10 / 100\<rparr>]
              else if psf \<le> max_psf then
                [\<lparr>cf_name = ''price_psf_value'', met = True, cf_weight = 5 / 100\<rparr>]
              else []
          | _ \<Rightarrow> [])
       else []))"

definition assess_yield_conviction :: "Listing \<Rightarrow> Mandate \<Rightarrow> ConvictionFactor list" where
  "assess_yield_conviction l m =
     (let fin = financial m in
      case listing_gross_yield l of
        None \<Rightarrow> [\<lparr>cf_name = ''yield_data'', met = False, cf_weight = 15 / 100\<rparr>]
      | Some listing_yield \<Rightarrow>
          (if truthy_real (min_yield fin) then
             (case min_yield fin of
                Some min_y \<Rightarrow>
                  (let yield_buffer = listing_yield - min_y in
                   if yield_buffer \<ge> 2 then
                     [\<lparr>cf_name = ''yield_buffer'', met = True, cf_weight = 20 / 100\<rparr>]
                   else if yield_buffer \<ge> 1 then
                     [\<lparr>cf_name = ''yield_buffer'', met = True, cf_weight = 15 / 100\<rparr>]
                   else if yield_buffer \<ge> 0 then
                     [\<lparr>cf_name = ''yield_buffer'', met = True, cf_weight = 5 / 100\<rparr>]
                   else
                     [\<lparr>cf_name = ''yield_buffer'', met = False, cf_weight = 20 / 100\<rparr>])
              | None \<Rightarrow> [])
           else []) @
          (if truthy_real (target_yield fin) \<and>
              (case target_yield fin of Some target_y \<Rightarrow> listing_yield \<ge> target_y | None \<Rightarrow> False)
           then [\<lparr>cf_name = ''yield_target'', met = True, cf_weight = 15 / 100\<rparr>]
           else []))"

definition assess_location_conviction :: "Listing \<Rightarrow> Mandate \<Rightarrow> ConvictionFactor list" where
  "assess_location_conviction l m =
     (let geo = geographic m; rgn = listing_region l; pcode = postcode_area l in
      (if rgn \<in> set (regions geo) then
         [\<lparr>cf_name = ''region_match'', met = True, cf_weight = 15 / 100\<rparr>]
       else if regions geo = [] then
         [\<lparr>cf_name = ''region_match'', met = True, cf_weight = 5 / 100\<rparr>]
       else []) @
      (if postcodes geo \<noteq> [] then
         (let exact_match = list_ex (\<lambda>pc. py_upper pcode = py_upper pc) (postcodes geo);
              prefix_match = list_ex (\<lambda>pc. py_startswith (py_upper pcode) (py_upper pc)) (postcodes geo)
          in if exact_match then
               [\<lparr>cf_name = ''postcode_match'', met = True, cf_weight = 15 / 100\<rparr>]
             else if prefix_match then
               [\<lparr>cf_name = ''postcode_match'', met = True, cf_weight = 10 / 100\<rparr>]
             else [])
       else []))"

definition assess_property_conviction :: "Listing \<Rightarrow> Mandate \<Rightarrow> ConvictionFactor list" where
  "assess_property_conviction l m =
     (let pm = property m; pl = property_details l; units = unit_count pl; cond = condition pl in
      (if truthy_int (min_units pm) \<and> truthy_int (max_units pm) then
         (case (min_units pm, max_units pm) of
            (Some mn, Some mx) \<Rightarrow>
              if mn \<le> units \<and> units \<le> mx then
                (let range_size = mx - mn in
                 if range_size > 0 then
                   (let position = (of_int (units - mn) / of_int range_size :: real) in
                    if 2 / 10 \<le> position \<and> position \<le> 8 / 10 then
                      [\<lparr>cf_name = ''unit_count'', met = True, cf_weight = 10 / 100\<rparr>]
                    else
                      [\<lparr>cf_name = ''unit_count'', met = True, cf_weight = 5 / 100\<rparr>])
                 else [])
              else []
          | _ \<Rightarrow> [])
       else []) @
      (if cond = TURNKEY \<and> accept_turnkey pm then
         [\<lparr>cf_name = ''condition_fit'', met = True, cf_weight = 15 / 100\<rparr>]
       else if cond = LIGHT_REFURB \<and> accept_refurbishment pm then
         [\<lparr>cf_name = ''condition_fit'', met = True, cf_weight = 12 / 100\<rparr>]
       else if cond = HEAVY_REFURB \<and> accept_refurbishment pm then
         [\<lparr>cf_name = ''condition_fit'', met = True, cf_weight = 8 / 100\<rparr>]
       else if cond = DEVELOPMENT \<and> accept_development pm then
         [\<lparr>cf_name = ''condition_fit'', met = True, cf_weight = 5 / 100\<rparr>]
       else if cond = CONDITION_UNKNOWN then
         [\<lparr>cf_name = ''condition_fit'', met = False, cf_weight = 10 / 100\<rparr>]
       else []) @
      (if has_tenants pl then
         [\<lparr>cf_name = ''income_status'', met = True, cf_weight = 10 / 100\<rparr>]
       else []))"

definition assess_risk_conviction :: "Listing \<Rightarrow> Mandate \<Rightarrow> ConvictionFactor list" where
  "assess_risk_conviction l m =
     (if tenure l = FREEHOLD then
        [\<lparr>cf_name = ''tenure_security'', met = True, cf_weight = 10 / 100\<rparr>]
      else if tenure l = SHARE_OF_FREEHOLD then
        [\<lparr>cf_name = ''tenure_security'', met = True, cf_weight = 8 / 100\<rparr>]
      else if tenure l = LEASEHOLD then
        (case lease_years_remaining (listing_financial l) of
           None \<Rightarrow> []
         | Some remaining \<Rightarrow>
             if remaining \<noteq> 0 \<and> remaining \<ge> 125 then
               [\<lparr>cf_name = ''tenure_security'', met = True, cf_weight = 8 / 100\<rparr>]
             else if remaining \<noteq> 0 \<and> remaining \<ge> 80 then
               [\<lparr>cf_name = ''tenure_security'', met = True, cf_weight = 5 / 100\<rparr>]
             else if remaining \<noteq> 0 then
               [\<lparr>cf_name = ''tenure_security'', met = False, cf_weight = 10 / 100\<rparr>]
             else [])
      else [])"

definition generate_conviction_recommendation :: "ConvictionLevel \<Rightarrow> string" where
  "generate_conviction_recommendation lv =
     (if lv = HIGH then ''RECOMMEND: Proceed to detailed due diligence and investor presentation''
      else if lv = MEDIUM then ''CONSIDER: Review with investment committee, clarify open items''
      else if lv = LOW then ''WATCH: Monitor for price reduction or changed circumstances''
      else ''PASS: Does not meet mandate criteria'')"

text \<open>The factors gathered by \<open>assess_conviction\<close>, in the order of its five calls.\<close>

definition all_conviction_factors :: "Listing \<Rightarrow> Mandate \<Rightarrow> ConvictionFactor list" where
  "all_conviction_factors l m =
     assess_price_conviction l m @ assess_yield_conviction l m @
     assess_location_conviction l m @ assess_property_conviction l m @
     assess_risk_conviction l m"

text \<open>The level chosen at the end of \<open>assess_conviction\<close> from the thresholds of the mandate.\<close>

definition conviction_level_of :: "DealCriteria \<Rightarrow> bool \<Rightarrow> real \<Rightarrow> ConvictionLevel" where
  "conviction_level_of deal passes final_confidence =
     (if \<not> passes then NONE
      else if final_confidence \<ge> high_conviction_threshold deal then HIGH
      else if final_confidence \<ge> medium_conviction_threshold deal then MEDIUM
      else if final_confidence \<ge> low_conviction_threshold deal then LOW
      else NONE)"

definition assess_conviction :: "Listing \<Rightarrow> Mandate \<Rightarrow> ScoringResult \<Rightarrow> ConvictionAssessment" where
  "assess_conviction l m scoring_result =
     (let deal = deal_criteria m;
          all_factors = all_conviction_factors l m;
          positive = filter (\<lambda>f. met f \<and> cf_weight f \<ge> 10 / 100) all_factors;
          negative = filter (\<lambda>f. \<not> met f) all_factors;
          neutral = filter (\<lambda>f. met f \<and> cf_weight f < 10 / 100) all_factors;
          weight_sum = sum_list (map cf_weight all_factors);
          total_weight = (if weight_sum = 0 then 1 else weight_sum);
          met_weight = sum_list (map cf_weight (filter met all_factors));
          factor_confidence = met_weight / total_weight;
          final_confidence =
            (if passes_hard_filters scoring_result
             then (total_score scoring_result / 100) * (7 / 10) + factor_confidence * (3 / 10)
             else factor_confidence * (3 / 10));
          lv = conviction_level_of deal (passes_hard_filters scoring_result) final_confidence
      in \<lparr>ca_listing_id = listing_id l, ca_mandate_id = mandate_id m,
          level = lv, confidence_score = final_confidence,
          positive_factors = positive, negative_factors = negative, neutral_factors = neutral,
          recommendation = generate_conviction_recommendation lv\<rparr>)"

section \<open>Rejection evaluator (core/rejection.py)\<close>

datatype RejectionCategory =
  RC_PRICE | RC_LOCATION | RC_YIELD | RC_ASSET_CLASS | RC_PROPERTY | RC_TENURE | RC_RISK
  | RC_DATA_QUALITY

datatype RejectionSeverity = HARD | SOFT

record RejectionReason =
  category :: RejectionCategory
  severity :: RejectionSeverity
  code :: string

record RejectionResult =
  rr_listing_id :: string
  rr_mandate_id :: string
  rejected :: bool
  reasons :: "RejectionReason list"

definition check_price_too_high :: "Listing \<Rightarrow> Mandate \<Rightarrow> RejectionReason option" where
  "check_price_too_high l m =
     (let price = listing_asking_price l in
      case max_deal_size (financial m) of
        None \<Rightarrow> None
      | Some max_size \<Rightarrow>
          if max_size \<noteq> 0 \<and> price > max_size then
            (let excess_pct = (of_int (price - max_size) / of_int max_size) * (100 :: real)
             in Some \<lparr>category = RC_PRICE,
                      severity = (if excess_pct > 20 then HARD else SOFT),
                      code = ''PRICE_EXCEEDS_MAX''\<rparr>)
          else None)"

definition check_price_too_low :: "Listing \<Rightarrow> Mandate \<Rightarrow> RejectionReason option" where
  "check_price_too_low l m =
     (let price = listing_asking_price l in
      case min_deal_size (financial m) of
        None \<Rightarrow> None
      | Some min_size \<Rightarrow>
          if min_size \<noteq> 0 \<and> price < min_size then
            (let shortfall_pct = (of_int (min_size - price) / of_int min_size) * (100 :: real)
             in Some \<lparr>category = RC_PRICE,
                      severity = (if shortfall_pct > 30 then HARD else SOFT),
                      code = ''PRICE_BELOW_MIN''\<rparr>)
          else None)"

definition check_location_excluded :: "Listing \<Rightarrow> Mandate \<Rightarrow> RejectionReason option" where
  "check_location_excluded l m =
     (let geo = geographic m; rgn = listing_region l; pcode = postcode_area l in
      if rgn \<in> set (exclude_regions geo) then
        Some \<lparr>category = RC_LOCATION, severity = HARD, code = ''REGION_EXCLUDED''\<rparr>
      else if list_ex (\<lambda>excluded. py_startswith (py_upper pcode) (py_upper excluded))
                (exclude_postcodes geo) then
        Some \<lparr>category = RC_LOCATION, severity = HARD, code = ''POSTCODE_EXCLUDED''\<rparr>
      else None)"

definition check_location_outside_target :: "Listing \<Rightarrow> Mandate \<Rightarrow> RejectionReason option" where
  "check_location_outside_target l m =
     (let geo = geographic m in
      if regions geo = [] \<and> postcodes geo = [] then None
      else
        (let rgn = listing_region l; pcode = postcode_area l;
             region_match = (regions geo = [] \<or> rgn \<in> set (regions geo));
             postcode_match = (postcodes geo = [] \<or>
               list_ex (\<lambda>pc. py_startswith (py_upper pcode) (py_upper pc)) (postcodes geo))
         in if \<not> region_match \<and> \<not> postcode_match then
              Some \<lparr>category = RC_LOCATION, severity = SOFT, code = ''LOCATION_NOT_TARGET''\<rparr>
            else None))"

text \<open>
  The remedy text of \<open>check_yield_insufficient\<close> divides by the listing's yield, which
  \<open>listing_gross_yield\<close> never returns as zero.
\<close>

definition check_yield_insufficient :: "Listing \<Rightarrow> Mandate \<Rightarrow> RejectionReason option" where
  "check_yield_insufficient l m =
     (case (min_yield (financial m), listing_gross_yield l) of
        (Some min_y, Some listing_yield) \<Rightarrow>
          if min_y \<noteq> 0 \<and> listing_yield < min_y then
            (let shortfall = min_y - listing_yield
             in Some \<lparr>category = RC_YIELD,
                      severity = (if shortfall > 2 then HARD else SOFT),
                      code = ''YIELD_BELOW_MIN''\<rparr>)
          else None
      | _ \<Rightarrow> None)"

definition check_asset_class_mismatch :: "Listing \<Rightarrow> Mandate \<Rightarrow> RejectionReason option" where
  "check_asset_class_mismatch l m =
     (if asset_classes m \<noteq> [] \<and> asset_class l \<notin> set (asset_classes m) then
        Some \<lparr>category = RC_ASSET_CLASS, severity = HARD, code = ''ASSET_CLASS_MISMATCH''\<rparr>
      else None)"

definition check_tenure_unacceptable :: "Listing \<Rightarrow> Mandate \<Rightarrow> RejectionReason option" where
  "check_tenure_unacceptable l m =
     (let pm = property m in
      if freehold_only pm \<and> tenure l \<noteq> FREEHOLD \<and> tenure l \<noteq> SHARE_OF_FREEHOLD then
        Some \<lparr>category = RC_TENURE, severity = HARD, code = ''FREEHOLD_REQUIRED''\<rparr>
      else if truthy_int (min_lease_years pm) \<and> tenure l = LEASEHOLD then
        (case (lease_years_remaining (listing_financial l), min_lease_years pm) of
           (Some remaining, Some min_lease) \<Rightarrow>
             if remaining < min_lease then
               Some \<lparr>category = RC_TENURE,
                     severity = (if remaining < 80 then HARD else SOFT),
                     code = ''LEASE_TOO_SHORT''\<rparr>
             else None
         | _ \<Rightarrow> None)
      else None)"

definition check_condition_unacceptable :: "Listing \<Rightarrow> Mandate \<Rightarrow> RejectionReason option" where
  "check_condition_unacceptable l m =
     (let pm = property m; cond = condition (property_details l) in
      if cond = DEVELOPMENT \<and> \<not> accept_development pm then
        Some \<lparr>category = RC_PROPERTY, severity = HARD, code = ''DEVELOPMENT_NOT_ACCEPTED''\<rparr>
      else if (cond = LIGHT_REFURB \<or> cond = HEAVY_REFURB) \<and> \<not> accept_refurbishment pm then
        Some \<lparr>category = RC_PROPERTY, severity = SOFT, code = ''REFURB_NOT_ACCEPTED''\<rparr>
      else None)"

definition check_unit_count :: "Listing \<Rightarrow> Mandate \<Rightarrow> RejectionReason option" where
  "check_unit_count l m =
     (let pm = property m; units = unit_count (property_details l) in
      if truthy_int (min_units pm) \<and> (case min_units pm of Some mn \<Rightarrow> units < mn | None \<Rightarrow> False) then
        Some \<lparr>category = RC_PROPERTY, severity = SOFT, code = ''UNITS_BELOW_MIN''\<rparr>
      else if truthy_int (max_units pm) \<and> (case max_units pm of Some mx \<Rightarrow> units > mx | None \<Rightarrow> False) then
        Some \<lparr>category = RC_PROPERTY, severity = SOFT, code = ''UNITS_ABOVE_MAX''\<rparr>
      else None)"

definition check_data_quality :: "Listing \<Rightarrow> Mandate \<Rightarrow> RejectionReason option" where
  "check_data_quality l m =
     (let missing =
            (if postcode (address l) = [] then [''postcode''] else []) @
            (if region (address l) = [] then [''region''] else []) @
            (if asking_price (listing_financial l) \<le> 0 then [''valid price''] else []) @
            (if condition (property_details l) = CONDITION_UNKNOWN then [''property condition''] else [])
      in if missing \<noteq> [] then
           Some \<lparr>category = RC_DATA_QUALITY, severity = SOFT, code = ''MISSING_DATA''\<rparr>
         else None)"

definition REJECTION_RULES :: "(Listing \<Rightarrow> Mandate \<Rightarrow> RejectionReason option) list" where
  "REJECTION_RULES =
     [check_asset_class_mismatch,
      check_location_excluded,
      check_price_too_high,
      check_price_too_low,
      check_yield_insufficient,
      check_tenure_unacceptable,
      check_condition_unacceptable,
      check_location_outside_target,
      check_unit_count,
      check_data_quality]"

text \<open>
  The loop of \<open>evaluate_rejection\<close> over the active rules, with \<open>acc\<close> the reasons
  collected so far; \<^verbatim>\<open>break\<close> leaves the loop after the first hard reason when
  \<open>stop_on_hard\<close> is set.
\<close>

fun collect_reasons ::
  "bool \<Rightarrow> (Listing \<Rightarrow> Mandate \<Rightarrow> RejectionReason option) list \<Rightarrow> Listing \<Rightarrow> Mandate \<Rightarrow>
   RejectionReason list \<Rightarrow> RejectionReason list" where
  "collect_reasons stop_on_hard [] l m acc = acc"
| "collect_reasons stop_on_hard (rule # rules) l m acc =
     (case rule l m of
        None \<Rightarrow> collect_reasons stop_on_hard rules l m acc
      | Some reason \<Rightarrow>
          if stop_on_hard \<and> severity reason = HARD then acc @ [reason]
          else collect_reasons stop_on_hard rules l m (acc @ [reason]))"

definition evaluate_rejection ::
  "Listing \<Rightarrow> Mandate \<Rightarrow> (Listing \<Rightarrow> Mandate \<Rightarrow> RejectionReason option) list option \<Rightarrow> bool \<Rightarrow>
   RejectionResult" where
  "evaluate_rejection l m rules stop_on_hard =
     (let active_rules =
            (case rules of
               None \<Rightarrow> REJECTION_RULES
             | Some rs \<Rightarrow> if rs \<noteq> [] then rs else REJECTION_RULES);
          rsns = collect_reasons stop_on_hard active_rules l m [];
          has_hard_rejection = list_ex (\<lambda>r. severity r = HARD) rsns
      in \<lparr>rr_listing_id = listing_id l, rr_mandate_id = mandate_id m,
          rejected = has_hard_rejection, reasons = rsns\<rparr>)"

section \<open>Recommendation synthesizer (core/recommendation.py)\<close>

datatype RecommendationAction = PURSUE | CONSIDER | WATCH | PASS

definition determine_action ::
  "ScoringResult \<Rightarrow> ConvictionAssessment \<Rightarrow> RejectionResult \<Rightarrow> Mandate \<Rightarrow> RecommendationAction" where
  "determine_action scoring conviction rejection m =
     (let deal = deal_criteria m in
      if rejected rejection then PASS
      else if level conviction = HIGH \<and> total_score scoring \<ge> pursue_score_threshold deal then PURSUE
      else if level conviction = MEDIUM then CONSIDER
      else if level conviction = HIGH \<and> total_score scoring \<ge> consider_score_threshold deal then CONSIDER
      else if level conviction = LOW \<and> passes_hard_filters scoring then
        (if total_score scoring \<ge> min_overall_score deal then WATCH else PASS)
      else PASS)"

fun action_base :: "RecommendationAction \<Rightarrow> int" where
  "action_base PURSUE = 1"
| "action_base CONSIDER = 2"
| "action_base WATCH = 3"
| "action_base PASS = 4"

definition calculate_priority ::
  "RecommendationAction \<Rightarrow> ScoringResult \<Rightarrow> ConvictionAssessment \<Rightarrow> Mandate \<Rightarrow> int" where
  "calculate_priority act scoring conviction m =
     (let base = action_base act;
          score_adjustment = py_int ((100 - total_score scoring) / 10);
          mandate_factor = priority m - 1
      in base * 100 + score_adjustment * 10 + mandate_factor)"

record DealRecommendation =
  dr_listing_id :: string
  dr_mandate_id :: string
  dr_action :: RecommendationAction
  priority_rank :: int
  dr_scoring :: ScoringResult
  dr_conviction :: ConvictionAssessment
  dr_rejection :: RejectionResult

text \<open>
  \<open>generate_recommendation\<close> called without a planning context: scoring, conviction and
  rejection in that order, then the action and the priority. The narrative fields are
  not modelled.
\<close>

definition generate_recommendation :: "Listing \<Rightarrow> Mandate \<Rightarrow> py_error + DealRecommendation" where
  "generate_recommendation l m =
     (case score_listing l m None of
        Inl e \<Rightarrow> Inl e
      | Inr scoring \<Rightarrow>
          (let conviction = assess_conviction l m scoring;
               rejection = evaluate_rejection l m None False;
               act = determine_action scoring conviction rejection m;
               prio = calculate_priority act scoring conviction m
           in Inr \<lparr>dr_listing_id = listing_id l, dr_mandate_id = mandate_id m,
                   dr_action = act, priority_rank = prio,
                   dr_scoring = scoring, dr_conviction = conviction,
                   dr_rejection = rejection\<rparr>))"

text \<open>
  The decision table as the specification words it, top-down and first match wins, over
  the rejected flag, the conviction level, the total score, the hard-filter flag and the
  mandate's deal criteria.
\<close>

definition spec_action_table ::
  "bool \<Rightarrow> ConvictionLevel \<Rightarrow> real \<Rightarrow> bool \<Rightarrow> DealCriteria \<Rightarrow> RecommendationAction" where
  "spec_action_table is_rejected lv sc passes deal =
     (if is_rejected then PASS
      else if lv = HIGH \<and> sc \<ge> pursue_score_threshold deal then PURSUE
      else if lv = MEDIUM \<or> (lv = HIGH \<and> sc \<ge> consider_score_threshold deal) then CONSIDER
      else if lv = LOW \<and> passes \<and> sc \<ge> min_overall_score deal then WATCH
      else PASS)"

section \<open>Review state machine (core/review.py)\<close>

datatype ReviewState = NEW | REVIEWING | ACCEPTED | DECLINED

datatype ReviewAction = START_REVIEW | ACCEPT | DECLINE | RESET

text \<open>The table \<^verbatim>\<open>VALID_TRANSITIONS\<close>: a dictionary of dictionaries, as a map of maps.\<close>

fun VALID_TRANSITIONS :: "ReviewState \<Rightarrow> ReviewAction \<Rightarrow> ReviewState option" where
  "VALID_TRANSITIONS NEW START_REVIEW = Some REVIEWING"
| "VALID_TRANSITIONS REVIEWING ACCEPT = Some ACCEPTED"
| "VALID_TRANSITIONS REVIEWING DECLINE = Some DECLINED"
| "VALID_TRANSITIONS REVIEWING RESET = Some NEW"
| "VALID_TRANSITIONS ACCEPTED RESET = Some NEW"
| "VALID_TRANSITIONS DECLINED RESET = Some NEW"
| "VALID_TRANSITIONS _ _ = None"

datatype review_error = InvalidTransitionError ReviewState ReviewAction

record StateTransition =
  from_state :: ReviewState
  to_state :: ReviewState
  tr_action :: ReviewAction
  tr_timestamp :: int
  tr_actor :: string
  tr_notes :: string

record DealReview =
  review_id :: string
  rv_listing_id :: string
  rv_mandate_id :: string
  state :: ReviewState
  created_at :: int
  updated_at :: int
  assigned_to :: "string option"
  rv_priority :: int
  decision_notes :: string
  decline_reasons :: "string list"
  history :: "StateTransition list"

definition can_transition :: "DealReview \<Rightarrow> ReviewAction \<Rightarrow> bool" where
  "can_transition r a = (VALID_TRANSITIONS (state r) a \<noteq> None)"

text \<open>
  The methods mutate \<^verbatim>\<open>self\<close> and may raise. The model returns the review as it is
  after the call together with the exception raised, if any. The clock read by
  \<^verbatim>\<open>datetime.now()\<close> is the parameter \<open>now\<close>.
\<close>

definition transition ::
  "DealReview \<Rightarrow> ReviewAction \<Rightarrow> string \<Rightarrow> string \<Rightarrow> int \<Rightarrow> DealReview \<times> review_error option" where
  "transition r a who nts now =
     (case VALID_TRANSITIONS (state r) a of
        None \<Rightarrow> (r, Some (InvalidTransitionError (state r) a))
      | Some new_state \<Rightarrow>
          (r\<lparr>history := history r @
                [\<lparr>from_state = state r, to_state = new_state, tr_action = a,
                  tr_timestamp = now, tr_actor = who, tr_notes = nts\<rparr>],
              state := new_state,
              updated_at := now\<rparr>, None))"

definition start_review :: "DealReview \<Rightarrow> string \<Rightarrow> string \<Rightarrow> int \<Rightarrow> DealReview \<times> review_error option" where
  "start_review r who nts now = transition r START_REVIEW who nts now"

definition accept :: "DealReview \<Rightarrow> string \<Rightarrow> string \<Rightarrow> int \<Rightarrow> DealReview \<times> review_error option" where
  "accept r who nts now = transition (r\<lparr>decision_notes := nts\<rparr>) ACCEPT who nts now"

definition decline ::
  "DealReview \<Rightarrow> string \<Rightarrow> string list \<Rightarrow> string \<Rightarrow> int \<Rightarrow> DealReview \<times> review_error option" where
  "decline r who why nts now =
     transition (r\<lparr>decline_reasons := why, decision_notes := nts\<rparr>) DECLINE who nts now"

definition reset :: "DealReview \<Rightarrow> string \<Rightarrow> string \<Rightarrow> int \<Rightarrow> DealReview \<times> review_error option" where
  "reset r who nts now = transition r RESET who nts now"

section \<open>Planning score combiner (planning/score.py)\<close>







section \<open>Feasibility assessment (planning/feasibility.py)\<close>

datatype PrecedentType =
  EXTENSION_REAR | EXTENSION_SIDE | EXTENSION_LOFT | EXTENSION_BASEMENT
  | CONVERSION_RESIDENTIAL | CONVERSION_HMO | CONVERSION_FLATS | CHANGE_OF_USE
  | NEW_BUILD | DEMOLITION_REBUILD | SUBDIVISION | PERMITTED_DEVELOPMENT | OTHER

datatype FeasibilityFactor =
  LISTED_BUILDING | CONSERVATION_AREA | GREEN_BELT | FLOOD_ZONE | ARTICLE_4
  | TREE_PRESERVATION | PROPERTY_TYPE | TENURE | PLOT_SIZE | PD_RIGHTS

text \<open>Of the planning context, the fields that \<open>assess_feasibility\<close> reads.\<close>

record PlanningContext =
  pc_property_type :: string
  pc_tenure :: string
  current_sqft :: "int option"
  plot_size_sqft :: "int option"
  conservation_area :: bool
  listed_building :: bool
  listed_grade :: string
  article_4_direction :: bool
  green_belt :: bool
  flood_zone :: int
  tree_preservation_orders :: bool
  proposed_type :: PrecedentType

text \<open>
  The result record doubles as the state that \<open>assess_feasibility\<close> threads through its
  ten steps: the running score and the lists each step appends to. Factor lists keep the
  factor tag of each entry; blockers and recommendations keep their text.
\<close>

record FeasibilityResult =
  fr_score :: int
  fr_positive_factors :: "FeasibilityFactor list"
  fr_negative_factors :: "FeasibilityFactor list"
  fr_neutral_factors :: "FeasibilityFactor list"
  blockers :: "string list"
  recommendations :: "string list"

definition assess_listed_building :: "PlanningContext \<Rightarrow> FeasibilityResult \<Rightarrow> FeasibilityResult" where
  "assess_listed_building ctx st =
     (if \<not> listed_building ctx then
        st\<lparr>fr_positive_factors := fr_positive_factors st @ [LISTED_BUILDING],
           fr_score := fr_score st + 5\<rparr>
      else
        (let grade = (if listed_grade ctx \<noteq> [] then py_upper (listed_grade ctx) else ''II'') in
         if grade = ''I'' then
           st\<lparr>blockers := blockers st @
                [''Grade I listed building - development extremely unlikely without exceptional circumstances''],
              fr_negative_factors := fr_negative_factors st @ [LISTED_BUILDING],
              recommendations := recommendations st @
                [''Grade I listing: Consult Historic England and specialist heritage architect before any works''],
              fr_score := fr_score st - 40\<rparr>
         else if grade = ''II*'' then
           st\<lparr>fr_negative_factors := fr_negative_factors st @ [LISTED_BUILDING],
              recommendations := recommendations st @
                [''Grade II* listing: Any alterations require Listed Building Consent and must preserve character''],
              fr_score := fr_score st - 25\<rparr>
         else
           st\<lparr>fr_negative_factors := fr_negative_factors st @ [LISTED_BUILDING],
              recommendations := recommendations st @
                [''Grade II listing: Internal works may be possible with sympathetic design. Consult conservation officer.''],
              fr_score := fr_score st - 15\<rparr>))"

definition assess_conservation_area :: "PlanningContext \<Rightarrow> FeasibilityResult \<Rightarrow> FeasibilityResult" where
  "assess_conservation_area ctx st =
     (if \<not> conservation_area ctx then
        st\<lparr>fr_positive_factors := fr_positive_factors st @ [CONSERVATION_AREA],
           fr_score := fr_score st + 3\<rparr>
      else
        st\<lparr>fr_negative_factors := fr_negative_factors st @ [CONSERVATION_AREA],
           recommendations := recommendations st @
             [''Conservation area: Extensions should match existing materials and respect local character. Pre-application advice recommended.''],
           fr_score := fr_score st - 10\<rparr>)"

definition assess_green_belt :: "PlanningContext \<Rightarrow> FeasibilityResult \<Rightarrow> FeasibilityResult" where
  "assess_green_belt ctx st =
     (if \<not> green_belt ctx then st
      else
        (let st1 = st\<lparr>fr_negative_factors := fr_negative_factors st @ [GREEN_BELT]\<rparr> in
         if proposed_type ctx \<in> set [NEW_BUILD, DEMOLITION_REBUILD, SUBDIVISION] then
           st1\<lparr>blockers := blockers st1 @
                 [''Green Belt location: New buildings are inappropriate development and very unlikely to be approved''],
               fr_score := fr_score st1 - 40\<rparr>
         else if proposed_type ctx \<in> set [EXTENSION_REAR, EXTENSION_SIDE, EXTENSION_LOFT] then
           st1\<lparr>recommendations := recommendations st1 @
                 [''Green Belt: Limited extensions may be acceptable if not disproportionate. Check local plan policies.''],
               fr_score := fr_score st1 - 20\<rparr>
         else
           st1\<lparr>recommendations := recommendations st1 @
                 [''Green Belt: Development must demonstrate very special circumstances. Professional planning advice essential.''],
               fr_score := fr_score st1 - 25\<rparr>))"

definition assess_flood_zone :: "PlanningContext \<Rightarrow> FeasibilityResult \<Rightarrow> FeasibilityResult" where
  "assess_flood_zone ctx st =
     (if flood_zone ctx = 1 then
        st\<lparr>fr_positive_factors := fr_positive_factors st @ [FLOOD_ZONE],
           fr_score := fr_score st + 2\<rparr>
      else if flood_zone ctx = 2 then
        st\<lparr>fr_neutral_factors := fr_neutral_factors st @ [FLOOD_ZONE],
           recommendations := recommendations st @
             [''Flood Zone 2: Flood Risk Assessment likely required for significant development''],
           fr_score := fr_score st - 5\<rparr>
      else
        st\<lparr>fr_negative_factors := fr_negative_factors st @ [FLOOD_ZONE],
           recommendations := recommendations st @
             [''Flood Zone 3: Sequential and Exception Tests required. Flood mitigation measures will be needed.''],
           fr_score := fr_score st - 15\<rparr>)"

definition assess_article_4 :: "PlanningContext \<Rightarrow> FeasibilityResult \<Rightarrow> FeasibilityResult" where
  "assess_article_4 ctx st =
     (if \<not> article_4_direction ctx then st
      else
        st\<lparr>fr_negative_factors := fr_negative_factors st @ [ARTICLE_4],
           recommendations := recommendations st @
             [''Article 4: Planning permission required for works that would normally be permitted development. Check scope of direction.''],
           fr_score := fr_score st - 10\<rparr>)"

definition assess_tpo :: "PlanningContext \<Rightarrow> FeasibilityResult \<Rightarrow> FeasibilityResult" where
  "assess_tpo ctx st =
     (if \<not> tree_preservation_orders ctx then st
      else
        st\<lparr>fr_negative_factors := fr_negative_factors st @ [TREE_PRESERVATION],
           recommendations := recommendations st @
             [''TPO: Arboricultural survey recommended. Tree works require council consent.''],
           fr_score := fr_score st - 5\<rparr>)"

definition assess_property_type :: "PlanningContext \<Rightarrow> FeasibilityResult \<Rightarrow> FeasibilityResult" where
  "assess_property_type ctx st =
     (let prop_type = py_lower (pc_property_type ctx); proposed = proposed_type ctx in
      if (py_contains ''house'' prop_type \<or> py_contains ''bungalow'' prop_type) \<and>
         proposed \<in> set [EXTENSION_LOFT, EXTENSION_REAR, EXTENSION_SIDE] then
        st\<lparr>fr_positive_factors := fr_positive_factors st @ [PROPERTY_TYPE],
           fr_score := fr_score st + 5\<rparr>
      else if prop_type = ''flat'' \<and>
         proposed \<in> set [EXTENSION_LOFT, EXTENSION_REAR, EXTENSION_SIDE, EXTENSION_BASEMENT] then
        st\<lparr>fr_negative_factors := fr_negative_factors st @ [PROPERTY_TYPE],
           recommendations := recommendations st @
             [''Flat: Extensions typically not possible. Consider internal reconfiguration or change of use.''],
           fr_score := fr_score st - 15\<rparr>
      else if py_contains ''terraced'' prop_type \<and> proposed = EXTENSION_SIDE then
        st\<lparr>fr_negative_factors := fr_negative_factors st @ [PROPERTY_TYPE],
           fr_score := fr_score st - 20\<rparr>
      else
        st\<lparr>fr_neutral_factors := fr_neutral_factors st @ [PROPERTY_TYPE]\<rparr>)"

definition assess_tenure :: "PlanningContext \<Rightarrow> FeasibilityResult \<Rightarrow> FeasibilityResult" where
  "assess_tenure ctx st =
     (let tn = py_lower (pc_tenure ctx) in
      if tn = ''freehold'' then
        st\<lparr>fr_positive_factors := fr_positive_factors st @ [TENURE],
           fr_score := fr_score st + 3\<rparr>
      else if tn = ''leasehold'' then
        st\<lparr>fr_negative_factors := fr_negative_factors st @ [TENURE],
           recommendations := recommendations st @
             [''Leasehold: Check lease terms for alteration clauses. Freeholder consent will be needed alongside planning.''],
           fr_score := fr_score st - 10\<rparr>
      else
        st\<lparr>fr_neutral_factors := fr_neutral_factors st @ [TENURE]\<rparr>)"

text \<open>
  The last part of \<open>assess_plot_size\<close>, reached when the coverage ratio decides nothing:
  the absolute size of the plot.
\<close>

definition absolute_plot_size :: "int \<Rightarrow> FeasibilityResult \<Rightarrow> FeasibilityResult" where
  "absolute_plot_size plot_size st =
     (if plot_size > 5000 then
        st\<lparr>fr_positive_factors := fr_positive_factors st @ [PLOT_SIZE],
           fr_score := fr_score st + 5\<rparr>
      else if plot_size < 1000 then
        st\<lparr>fr_neutral_factors := fr_neutral_factors st @ [PLOT_SIZE],
           fr_score := fr_score st - 3\<rparr>
      else st)"

definition assess_plot_size :: "PlanningContext \<Rightarrow> FeasibilityResult \<Rightarrow> FeasibilityResult" where
  "assess_plot_size ctx st =
     (case plot_size_sqft ctx of
        None \<Rightarrow> st\<lparr>fr_neutral_factors := fr_neutral_factors st @ [PLOT_SIZE]\<rparr>
      | Some plot_size \<Rightarrow>
          if plot_size = 0 then st\<lparr>fr_neutral_factors := fr_neutral_factors st @ [PLOT_SIZE]\<rparr>
          else
            (case current_sqft ctx of
               None \<Rightarrow> absolute_plot_size plot_size st
             | Some cur \<Rightarrow>
                 if cur = 0 then absolute_plot_size plot_size st
                 else
                   (let ratio = (of_int cur / of_int plot_size :: real) in
                    if ratio < 3 / 10 then
                      st\<lparr>fr_positive_factors := fr_positive_factors st @ [PLOT_SIZE],
                         fr_score := fr_score st + 10\<rparr>
                    else if ratio > 6 / 10 then
                      st\<lparr>fr_negative_factors := fr_negative_factors st @ [PLOT_SIZE],
                         recommendations := recommendations st @
                           [''High plot coverage: Loft conversion or basement may be only expansion options''],
                         fr_score := fr_score st - 10\<rparr>
                    else absolute_plot_size plot_size st)))"

definition assess_pd_rights :: "PlanningContext \<Rightarrow> FeasibilityResult \<Rightarrow> FeasibilityResult" where
  "assess_pd_rights ctx st =
     (let has_pd_rights =
            (\<not> listed_building ctx \<and> \<not> article_4_direction ctx \<and>
             py_lower (pc_property_type ctx) \<notin> set [''flat'', ''maisonette''])
      in if has_pd_rights \<and>
            proposed_type ctx \<in> set [EXTENSION_REAR, EXTENSION_LOFT, PERMITTED_DEVELOPMENT] then
           st\<lparr>fr_positive_factors := fr_positive_factors st @ [PD_RIGHTS],
              recommendations := recommendations st @
                [''PD rights: Rear extensions up to 3m (attached) or 4m (detached) may not need planning permission. Verify with council.''],
              fr_score := fr_score st + 8\<rparr>
         else st)"

definition assess_feasibility :: "PlanningContext \<Rightarrow> FeasibilityResult" where
  "assess_feasibility ctx =
     (let st0 = \<lparr>fr_score = 70, fr_positive_factors = [], fr_negative_factors = [],
                 fr_neutral_factors = [], blockers = [], recommendations = []\<rparr>;
          st1 = assess_listed_building ctx st0;
          st2 = assess_conservation_area ctx st1;
          st3 = assess_green_belt ctx st2;
          st4 = assess_flood_zone ctx st3;
          st5 = assess_article_4 ctx st4;
          st6 = assess_tpo ctx st5;
          st7 = assess_property_type ctx st6;
          st8 = assess_tenure ctx st7;
          st9 = assess_plot_size ctx st8;
          st10 = assess_pd_rights ctx st9;
          clamped = max 0 (min 100 (fr_score st10));
          final = (if blockers st10 \<noteq> [] then min clamped 20 else clamped)
      in st10\<lparr>fr_score := final\<rparr>)"

section \<open>Notions used to state the properties\<close>

text \<open>Conviction levels and letter grades in increasing order.\<close>

fun level_rank :: "ConvictionLevel \<Rightarrow> nat" where
  "level_rank NONE = 0"
| "level_rank LOW = 1"
| "level_rank MEDIUM = 2"
| "level_rank HIGH = 3"


text \<open>The ten keys that the scorers read from a weights dictionary.\<close>

definition WEIGHT_KEYS :: "string list" where
  "WEIGHT_KEYS =
     [''location_region'', ''location_postcode'', ''price_range'', ''price_psf'',
      ''yield_minimum'', ''yield_target'', ''property_size'', ''property_condition'',
      ''property_tenure'', ''risk_profile'']"



text \<open>
  The deal-size range of the mandate has zero width and the asking price sits on it:
  the input on which the price scorer divides by zero.
\<close>

definition zero_width_range_hit :: "Listing \<Rightarrow> Mandate \<Rightarrow> bool" where
  "zero_width_range_hit l m =
     (min_deal_size (financial m) = Some (listing_asking_price l) \<and>
      max_deal_size (financial m) = Some (listing_asking_price l) \<and>
      listing_asking_price l \<noteq> 0)"




definition result_weights :: "py_error + ScoringResult \<Rightarrow> (string \<times> real) list" where
  "result_weights r =
     (case r of Inl e \<Rightarrow> [] | Inr res \<Rightarrow> map (\<lambda>f. (sf_name f, sf_weight f)) (factors res))"

text \<open>The action of the recommendation that \<open>generate_recommendation\<close> returns, if it returns one.\<close>

definition recommendation_action :: "py_error + DealRecommendation \<Rightarrow> RecommendationAction option" where
  "recommendation_action r = (case r of Inl e \<Rightarrow> None | Inr rcm \<Rightarrow> Some (dr_action rcm))"

section \<open>Concrete inputs used by the witnesses and counterexamples\<close>

definition example_review :: DealReview where
  "example_review =
     \<lparr>review_id = ''r1'', rv_listing_id = ''l1'', rv_mandate_id = ''m1'', state = NEW,
      created_at = 0, updated_at = 0, assigned_to = None, rv_priority = 3,
      decision_notes = ''old'', decline_reasons = [''stale''], history = []\<rparr>"

text \<open>
  A mandate for London residential property between 500,000 and 5,000,000 with a minimum
  yield of 5 and a target of 7 per cent, default weights and thresholds, and a listing
  that fits it.
\<close>

definition example_mandate :: Mandate where
  "example_mandate =
     \<lparr>mandate_id = ''M1'', asset_classes = [RESIDENTIAL], risk_profile = CORE_PLUS,
      geographic = \<lparr>regions = [''London''], postcodes = [], exclude_regions = [''Wales''],
                    exclude_postcodes = []\<rparr>,
      financial = \<lparr>min_deal_size = Some 500000, max_deal_size = Some 5000000,
                   min_yield = Some 5, target_yield = Some 7, max_price_psf = None\<rparr>,
      property = \<lparr>min_units = None, max_units = None, accept_refurbishment = True,
                  accept_development = False, accept_turnkey = True, freehold_only = False,
                  min_lease_years = None\<rparr>,
      deal_criteria = \<lparr>min_overall_score = 40, pursue_score_threshold = 75,
                       consider_score_threshold = 60, high_conviction_threshold = 80 / 100,
                       medium_conviction_threshold = 60 / 100,
                       low_conviction_threshold = 40 / 100\<rparr>,
      scoring_weights = \<lparr>location_region = 15 / 100, location_postcode = 10 / 100,
                         price_range = 20 / 100, price_psf = 5 / 100, yield_minimum = 15 / 100,
                         yield_target = 10 / 100, property_size = 5 / 100,
                         property_condition = 10 / 100, property_tenure = 5 / 100,
                         risk_profile_weight = 5 / 100\<rparr>,
      priority = 1\<rparr>"

definition example_listing :: Listing where
  "example_listing =
     \<lparr>listing_id = ''L1'', asset_class = RESIDENTIAL, tenure = FREEHOLD,
      address = \<lparr>region = ''London'', postcode = ''SW1A 1AA''\<rparr>,
      listing_financial = \<lparr>asking_price = 2000000, current_rent = None,
                           gross_yield = Some (85 / 10), price_per_sqft = None,
                           lease_years_remaining = None\<rparr>,
      property_details = \<lparr>unit_count = 1, condition = TURNKEY, has_tenants = True\<rparr>\<rparr>"

text \<open>The same listing priced at 8,500,000, seventy per cent above the mandate's maximum.\<close>

definition expensive_listing :: Listing where
  "expensive_listing =
     example_listing\<lparr>listing_financial := (listing_financial example_listing)\<lparr>asking_price := 8500000\<rparr>\<rparr>"

text \<open>The same listing priced at 500,000, the lower edge of the mandate's range.\<close>

definition edge_listing :: Listing where
  "edge_listing =
     example_listing\<lparr>listing_financial := (listing_financial example_listing)\<lparr>asking_price := 500000\<rparr>\<rparr>"

text \<open>The same listing located in Wales, a region the mandate excludes.\<close>

definition wales_listing :: Listing where
  "wales_listing = example_listing\<lparr>address := \<lparr>region = ''Wales'', postcode = ''CF10 1AA''\<rparr>\<rparr>"

text \<open>The mandate with no include list of regions, Wales still excluded.\<close>

definition exclusion_only_mandate :: Mandate where
  "exclusion_only_mandate =
     example_mandate\<lparr>geographic := \<lparr>regions = [], postcodes = [], exclude_regions = [''Wales''],
                                     exclude_postcodes = []\<rparr>\<rparr>"

text \<open>The mandate with its own weight for the region factor raised from 0.15 to 0.40.\<close>

definition reweighted_mandate :: Mandate where
  "reweighted_mandate =
     example_mandate\<lparr>scoring_weights := (scoring_weights example_mandate)\<lparr>location_region := 40 / 100\<rparr>\<rparr>"

text \<open>
  A mandate without constraints whose weight for the condition factor is negative, and a
  listing of unknown condition.
\<close>

definition negative_weight_mandate :: Mandate where
  "negative_weight_mandate =
     \<lparr>mandate_id = ''M2'', asset_classes = [], risk_profile = CORE_PLUS,
      geographic = \<lparr>regions = [], postcodes = [], exclude_regions = [], exclude_postcodes = []\<rparr>,
      financial = \<lparr>min_deal_size = None, max_deal_size = None, min_yield = None,
                   target_yield = None, max_price_psf = None\<rparr>,
      property = \<lparr>min_units = None, max_units = None, accept_refurbishment = True,
                  accept_development = False, accept_turnkey = True, freehold_only = False,
                  min_lease_years = None\<rparr>,
      deal_criteria = deal_criteria example_mandate,
      scoring_weights = (scoring_weights example_mandate)\<lparr>property_condition := - (50 / 100)\<rparr>,
      priority = 1\<rparr>"

definition unknown_condition_listing :: Listing where
  "unknown_condition_listing =
     example_listing\<lparr>property_details :=
       \<lparr>unit_count = 1, condition = CONDITION_UNKNOWN, has_tenants = False\<rparr>\<rparr>"

text \<open>Two scoring results with a total of 80, one passing the hard filters and one not.\<close>

definition passing_score :: ScoringResult where
  "passing_score =
     \<lparr>sr_listing_id = ''L1'', sr_mandate_id = ''M1'', total_score = 80, match_grade = ''B'',
      factors = [], passes_hard_filters = True\<rparr>"

definition failing_score :: ScoringResult where
  "failing_score = passing_score\<lparr>passes_hard_filters := False\<rparr>"

text \<open>A Grade I listed freehold house for which a rear extension is proposed.\<close>

definition grade_I_house :: PlanningContext where
  "grade_I_house =
     \<lparr>pc_property_type = ''house_detached'', pc_tenure = ''freehold'', current_sqft = Some 1500,
      plot_size_sqft = Some 6000, conservation_area = False, listed_building = True,
      listed_grade = ''I'', article_4_direction = False, green_belt = False, flood_zone = 1,
      tree_preservation_orders = False, proposed_type = EXTENSION_REAR\<rparr>"

section \<open>Theorems\<close>

text \<open>
  Claim C10. When \<open>accept\<close> or \<open>decline\<close> is called in a state whose row of the transition
  table lacks the action, \<open>InvalidTransitionError\<close> is raised and the state and the
  history are unchanged, but \<open>accept\<close> has already overwritten \<open>decision_notes\<close>, and
  \<open>decline\<close> both \<open>decline_reasons\<close> and \<open>decision_notes\<close>: the review after the failed
  call differs from the review before it exactly in those fields.
\<close>

theorem accept_decline_invalid_keeps_state_overwrites_notes:
  "(\<not> can_transition r ACCEPT \<longrightarrow>
      accept r who nts now =
        (r\<lparr>decision_notes := nts\<rparr>, Some (InvalidTransitionError (state r) ACCEPT)) \<and>
      state (fst (accept r who nts now)) = state r \<and>
      history (fst (accept r who nts now)) = history r \<and>
      decision_notes (fst (accept r who nts now)) = nts) \<and>
   (\<not> can_transition r DECLINE \<longrightarrow>
      decline r who why nts now =
        (r\<lparr>decline_reasons := why, decision_notes := nts\<rparr>,
         Some (InvalidTransitionError (state r) DECLINE)) \<and>
      state (fst (decline r who why nts now)) = state r \<and>
      history (fst (decline r who why nts now)) = history r \<and>
      decline_reasons (fst (decline r who why nts now)) = why \<and>
      decision_notes (fst (decline r who why nts now)) = nts)"
  by (simp add: can_transition_def accept_def decline_def transition_def)

theorem accept_decline_invalid_witness:
  "\<not> can_transition example_review ACCEPT \<and>
   accept example_review ''ann'' ''fine'' 7 =
     (example_review\<lparr>decision_notes := ''fine''\<rparr>, Some (InvalidTransitionError NEW ACCEPT)) \<and>
   state (fst (accept example_review ''ann'' ''fine'' 7)) = NEW \<and>
   history (fst (accept example_review ''ann'' ''fine'' 7)) = [] \<and>
   decision_notes example_review = ''old'' \<and>
   decision_notes (fst (accept example_review ''ann'' ''fine'' 7)) = ''fine'' \<and>
   \<not> can_transition example_review DECLINE \<and>
   decline example_review ''ann'' [''price''] ''fine'' 7 =
     (example_review\<lparr>decline_reasons := [''price''], decision_notes := ''fine''\<rparr>,
      Some (InvalidTransitionError NEW DECLINE)) \<and>
   decline_reasons example_review = [''stale''] \<and>
   decline_reasons (fst (decline example_review ''ann'' [''price''] ''fine'' 7)) = [''price'']"
  using accept_decline_invalid_keeps_state_overwrites_notes
    [of example_review "''ann''" "''fine''" 7 "[''price'']"]
  by (simp add: can_transition_def example_review_def)

subsection \<open>Planning score\<close>




subsection \<open>Feasibility of a Grade I listed building\<close>

text \<open>Blockers are only ever appended: each step after the first keeps a non-empty list.\<close>

lemma blockers_conservation_area: "blockers (assess_conservation_area ctx st) = blockers st"
  by (simp add: assess_conservation_area_def)

lemma blockers_green_belt: "blockers st \<noteq> [] \<Longrightarrow> blockers (assess_green_belt ctx st) \<noteq> []"
  by (simp add: assess_green_belt_def Let_def)

lemma blockers_flood_zone: "blockers (assess_flood_zone ctx st) = blockers st"
  by (simp add: assess_flood_zone_def)

lemma blockers_article_4: "blockers (assess_article_4 ctx st) = blockers st"
  by (simp add: assess_article_4_def)

lemma blockers_tpo: "blockers (assess_tpo ctx st) = blockers st"
  by (simp add: assess_tpo_def)

lemma blockers_property_type: "blockers (assess_property_type ctx st) = blockers st"
  by (simp add: assess_property_type_def Let_def)

lemma blockers_tenure: "blockers (assess_tenure ctx st) = blockers st"
  by (simp add: assess_tenure_def Let_def)

lemma blockers_absolute_plot_size: "blockers (absolute_plot_size n st) = blockers st"
  by (simp add: absolute_plot_size_def)

lemma blockers_plot_size: "blockers (assess_plot_size ctx st) = blockers st"
  by (simp add: assess_plot_size_def Let_def blockers_absolute_plot_size split: option.splits)

lemma blockers_pd_rights: "blockers (assess_pd_rights ctx st) = blockers st"
  by (simp add: assess_pd_rights_def Let_def)

lemma blockers_grade_I:
  "listed_building ctx \<Longrightarrow> listed_grade ctx = ''I'' \<Longrightarrow>
   blockers (assess_listed_building ctx st) \<noteq> []"
  by (simp add: assess_listed_building_def Let_def py_upper_def py_upper_char_def)

lemma feasibility_blockers:
  "blockers (assess_feasibility ctx) =
   blockers (assess_green_belt ctx (assess_conservation_area ctx (assess_listed_building ctx
     \<lparr>fr_score = 70, fr_positive_factors = [], fr_negative_factors = [],
      fr_neutral_factors = [], blockers = [], recommendations = []\<rparr>)))"
  by (simp add: assess_feasibility_def Let_def blockers_pd_rights blockers_plot_size
      blockers_tenure blockers_property_type blockers_tpo blockers_article_4 blockers_flood_zone)

lemma feasibility_score_capped:
  "blockers (assess_feasibility ctx) \<noteq> [] \<Longrightarrow> fr_score (assess_feasibility ctx) \<le> 20"
  by (simp add: assess_feasibility_def Let_def)

lemma feasibility_score_range:
  "0 \<le> fr_score (assess_feasibility ctx) \<and> fr_score (assess_feasibility ctx) \<le> 100"
  by (simp add: assess_feasibility_def Let_def min_def max_def)

text \<open>
  Claim C9. For every planning context with \<open>listed_building\<close> true and listed grade
  \<open>I\<close>, \<open>assess_feasibility\<close> returns a score of at most 30 (in fact between 0 and 20) and
  a non-empty list of blockers.
\<close>

theorem grade_I_feasibility_capped_with_blocker:
  assumes "listed_building ctx" and "listed_grade ctx = ''I''"
  shows "fr_score (assess_feasibility ctx) \<le> 30 \<and> blockers (assess_feasibility ctx) \<noteq> [] \<and>
         0 \<le> fr_score (assess_feasibility ctx) \<and> fr_score (assess_feasibility ctx) \<le> 20"
proof -
  have b: "blockers (assess_feasibility ctx) \<noteq> []"
    unfolding feasibility_blockers
    by (intro blockers_green_belt) (simp add: blockers_conservation_area blockers_grade_I [OF assms])
  from feasibility_score_capped [OF b] feasibility_score_range [of ctx] b show ?thesis by simp
qed

theorem grade_I_feasibility_witness:
  "listed_building grade_I_house \<and> listed_grade grade_I_house = ''I'' \<and>
   fr_score (assess_feasibility grade_I_house) \<le> 30 \<and>
   blockers (assess_feasibility grade_I_house) \<noteq> []"
proof -
  have 1: "listed_building grade_I_house" by (simp add: grade_I_house_def)
  have 2: "listed_grade grade_I_house = ''I''" by (simp add: grade_I_house_def)
  from grade_I_feasibility_capped_with_blocker [OF 1 2] 1 2 show ?thesis by simp
qed

subsection \<open>Rejection\<close>

lemma collect_reasons_acc:
  "collect_reasons stop rules l m acc = acc @ collect_reasons stop rules l m []"
proof (induction rules arbitrary: acc)
  case Nil
  then show ?case by simp
next
  case (Cons rule rules)
  show ?case
  proof (cases "rule l m")
    case None
    then show ?thesis using Cons.IH [of acc] by simp
  next
    case (Some reason)
    then show ?thesis using Cons.IH [of "acc @ [reason]"] Cons.IH [of "[reason]"] by simp
  qed
qed

text \<open>Stopping at the first hard reason does not change whether there is one.\<close>

lemma collect_reasons_hard_same:
  "list_ex (\<lambda>r. severity r = HARD) (collect_reasons True rules l m []) =
   list_ex (\<lambda>r. severity r = HARD) (collect_reasons False rules l m [])"
proof (induction rules)
  case Nil
  then show ?case by simp
next
  case (Cons rule rules)
  show ?case
  proof (cases "rule l m")
    case None
    then show ?thesis using Cons.IH by simp
  next
    case (Some reason)
    then show ?thesis
      using Cons.IH collect_reasons_acc [of True rules l m "[reason]"]
        collect_reasons_acc [of False rules l m "[reason]"]
      by (simp add: list_ex_iff)
  qed
qed

text \<open>Without early stopping, the reason of every rule that fires is collected.\<close>

lemma collect_reasons_all_mem:
  "rule \<in> set rules \<Longrightarrow> rule l m = Some reason \<Longrightarrow>
   reason \<in> set (collect_reasons False rules l m [])"
proof (induction rules)
  case Nil
  then show ?case by simp
next
  case (Cons r rules)
  show ?case
  proof (cases "r l m")
    case None
    then show ?thesis using Cons by auto
  next
    case (Some x)
    then show ?thesis using Cons collect_reasons_acc [of False rules l m "[x]"] by auto
  qed
qed

lemma price_rule_in_rules: "check_price_too_high \<in> set REJECTION_RULES"
  by (simp add: REJECTION_RULES_def)

text \<open>
  Claim C7. For every listing, mandate, rule list and either value of \<open>stop_on_hard\<close>,
  \<open>evaluate_rejection\<close> returns \<open>rejected = true\<close> exactly when its reasons contain a reason
  of severity HARD (and the flag is the same for both values of \<open>stop_on_hard\<close>). A price
  above a configured (non-zero) \<open>max_deal_size\<close> makes \<open>check_price_too_high\<close> return a
  \<open>PRICE_EXCEEDS_MAX\<close> reason that is HARD exactly when the excess over the maximum is more
  than 20 per cent and SOFT otherwise, and the default evaluation lists that reason.
\<close>

theorem rejected_iff_hard_reason:
  "(rejected (evaluate_rejection l m rules stop) \<longleftrightarrow>
      (\<exists>r \<in> set (reasons (evaluate_rejection l m rules stop)). severity r = HARD)) \<and>
   rejected (evaluate_rejection l m rules True) = rejected (evaluate_rejection l m rules False) \<and>
   (max_deal_size (financial m) = Some max_size \<and> max_size \<noteq> 0 \<and>
    listing_asking_price l > max_size \<longrightarrow>
      check_price_too_high l m =
        Some \<lparr>category = RC_PRICE,
              severity =
                (if of_int (listing_asking_price l - max_size) / of_int max_size * (100 :: real) > 20
                 then HARD else SOFT),
              code = ''PRICE_EXCEEDS_MAX''\<rparr> \<and>
      \<lparr>category = RC_PRICE,
       severity =
         (if of_int (listing_asking_price l - max_size) / of_int max_size * (100 :: real) > 20
          then HARD else SOFT),
       code = ''PRICE_EXCEEDS_MAX''\<rparr> \<in> set (reasons (evaluate_rejection l m None False)))"
proof -
  have 1: "rejected (evaluate_rejection l m rules stop) \<longleftrightarrow>
      (\<exists>r \<in> set (reasons (evaluate_rejection l m rules stop)). severity r = HARD)"
    by (simp add: evaluate_rejection_def Let_def list_ex_iff)
  have 2: "rejected (evaluate_rejection l m rules True) =
      rejected (evaluate_rejection l m rules False)"
    by (simp add: evaluate_rejection_def Let_def collect_reasons_hard_same)
  have 3: "check_price_too_high l m =
        Some \<lparr>category = RC_PRICE,
              severity =
                (if of_int (listing_asking_price l - max_size) / of_int max_size * (100 :: real) > 20
                 then HARD else SOFT),
              code = ''PRICE_EXCEEDS_MAX''\<rparr>"
    if "max_deal_size (financial m) = Some max_size" "max_size \<noteq> 0"
      "listing_asking_price l > max_size"
    using that by (simp add: check_price_too_high_def Let_def)
  have 4: "\<lparr>category = RC_PRICE,
       severity =
         (if of_int (listing_asking_price l - max_size) / of_int max_size * (100 :: real) > 20
          then HARD else SOFT),
       code = ''PRICE_EXCEEDS_MAX''\<rparr> \<in> set (reasons (evaluate_rejection l m None False))"
    if "max_deal_size (financial m) = Some max_size" "max_size \<noteq> 0"
      "listing_asking_price l > max_size"
    using collect_reasons_all_mem [OF price_rule_in_rules 3 [OF that]]
    by (simp add: evaluate_rejection_def Let_def)
  from 1 2 3 4 show ?thesis by blast
qed

theorem rejected_iff_hard_reason_witness:
  "max_deal_size (financial example_mandate) = Some 5000000 \<and>
   listing_asking_price expensive_listing > 5000000 \<and>
   check_price_too_high expensive_listing example_mandate =
     Some \<lparr>category = RC_PRICE, severity = HARD, code = ''PRICE_EXCEEDS_MAX''\<rparr> \<and>
   \<lparr>category = RC_PRICE, severity = HARD, code = ''PRICE_EXCEEDS_MAX''\<rparr>
     \<in> set (reasons (evaluate_rejection expensive_listing example_mandate None False)) \<and>
   rejected (evaluate_rejection expensive_listing example_mandate None False) \<and>
   rejected (evaluate_rejection expensive_listing example_mandate None True)"
proof -
  have a: "max_deal_size (financial example_mandate) = Some 5000000"
    by (simp add: example_mandate_def)
  have b: "listing_asking_price expensive_listing > 5000000"
    by (simp add: expensive_listing_def example_listing_def listing_asking_price_def)
  have c: "listing_asking_price expensive_listing = 8500000"
    by (simp add: expensive_listing_def example_listing_def listing_asking_price_def)
  from rejected_iff_hard_reason
    [of expensive_listing example_mandate None False 5000000] a b c
  have d: "check_price_too_high expensive_listing example_mandate =
      Some \<lparr>category = RC_PRICE, severity = HARD, code = ''PRICE_EXCEEDS_MAX''\<rparr>"
    and e: "\<lparr>category = RC_PRICE, severity = HARD, code = ''PRICE_EXCEEDS_MAX''\<rparr>
      \<in> set (reasons (evaluate_rejection expensive_listing example_mandate None False))"
    and f: "rejected (evaluate_rejection expensive_listing example_mandate None False) \<longleftrightarrow>
      (\<exists>r \<in> set (reasons (evaluate_rejection expensive_listing example_mandate None False)).
         severity r = HARD)"
    and g: "rejected (evaluate_rejection expensive_listing example_mandate None True) =
      rejected (evaluate_rejection expensive_listing example_mandate None False)"
    by simp_all
  from e f have h: "rejected (evaluate_rejection expensive_listing example_mandate None False)"
    by force
  from a b d e g h show ?thesis by simp
qed

subsection \<open>Evaluating the examples\<close>

lemmas example_defs =
  example_mandate_def example_listing_def expensive_listing_def edge_listing_def
  wales_listing_def exclusion_only_mandate_def reweighted_mandate_def
  negative_weight_mandate_def unknown_condition_listing_def

lemmas accessor_defs =
  listing_region_def listing_asking_price_def listing_gross_yield_def
  truthy_int_def truthy_real_def

lemmas string_defs =
  py_upper_def py_upper_char_def py_split_def py_isspace_def py_startswith_def postcode_area_def

lemmas sub_score_defs =
  region_score_def postcode_score_def price_range_score_def psf_score_def
  min_yield_score_def target_yield_score_def size_score_def condition_score_def
  tenure_score_def risk_score_def

lemmas scorer_defs =
  score_location_def score_price_def score_yield_def score_property_def score_risk_def
  then_factors_def one_factor_def make_factor_def

lemma example_postcode_area: "postcode_area example_listing = ''SW1A''"
  by (simp add: example_defs string_defs)

lemma example_sub_scores:
  "region_score example_listing example_mandate = 1"
  "postcode_score example_listing example_mandate = 1"
  "price_range_score example_listing example_mandate = Inr (14 / 15)"
  "psf_score example_listing example_mandate = 1"
  "min_yield_score example_listing example_mandate = 1"
  "target_yield_score example_listing example_mandate = 33 / 35"
  "size_score example_listing example_mandate = 1"
  "condition_score example_listing example_mandate = 1"
  "tenure_score example_listing example_mandate = 1"
  "risk_score example_listing example_mandate = 8 / 10"
  by (simp_all add: sub_score_defs example_defs accessor_defs Let_def)

lemma example_passes:
  "accepts_asset_class example_mandate (asset_class example_listing)"
  "accepts_location example_mandate (listing_region example_listing) (postcode_area example_listing)"
  by (simp_all add: accepts_asset_class_def accepts_location_def example_postcode_area Let_def
      listing_region_def example_mandate_def example_listing_def)

lemma example_score:
  "score_listing example_listing example_mandate None =
     Inr \<lparr>sr_listing_id = ''L1'', sr_mandate_id = ''M1'', total_score = 2039 / 21,
          match_grade = ''A'',
          factors =
            [\<lparr>sf_category = SC_LOCATION, sf_name = ''region_match'', sf_score = 1,
              sf_weight = 15 / 100, weighted_score = 15 / 100\<rparr>,
             \<lparr>sf_category = SC_LOCATION, sf_name = ''postcode_match'', sf_score = 1,
              sf_weight = 10 / 100, weighted_score = 10 / 100\<rparr>,
             \<lparr>sf_category = SC_PRICE, sf_name = ''price_range'', sf_score = 14 / 15,
              sf_weight = 20 / 100, weighted_score = 14 / 75\<rparr>,
             \<lparr>sf_category = SC_PRICE, sf_name = ''price_psf'', sf_score = 1,
              sf_weight = 5 / 100, weighted_score = 5 / 100\<rparr>,
             \<lparr>sf_category = SC_YIELD, sf_name = ''yield_minimum'', sf_score = 1,
              sf_weight = 15 / 100, weighted_score = 15 / 100\<rparr>,
             \<lparr>sf_category = SC_YIELD, sf_name = ''yield_target'', sf_score = 33 / 35,
              sf_weight = 10 / 100, weighted_score = 33 / 350\<rparr>,
             \<lparr>sf_category = SC_PROPERTY, sf_name = ''property_size'', sf_score = 1,
              sf_weight = 5 / 100, weighted_score = 5 / 100\<rparr>,
             \<lparr>sf_category = SC_PROPERTY, sf_name = ''property_condition'', sf_score = 1,
              sf_weight = 10 / 100, weighted_score = 10 / 100\<rparr>,
             \<lparr>sf_category = SC_PROPERTY, sf_name = ''property_tenure'', sf_score = 1,
              sf_weight = 5 / 100, weighted_score = 5 / 100\<rparr>,
             \<lparr>sf_category = SC_RISK, sf_name = ''risk_profile'', sf_score = 8 / 10,
              sf_weight = 5 / 100, weighted_score = 4 / 100\<rparr>],
          passes_hard_filters = True\<rparr>"
  apply (simp add: score_listing_def Let_def example_sub_scores example_passes scorer_defs
      active_weights_def to_dict_def calculate_grade_def)
  apply (simp add: example_mandate_def example_listing_def)
  done

subsection \<open>Range of the total score\<close>




















text \<open>Whatever the arguments, the active weights have all ten keys: no \<open>KeyError\<close>.\<close>

lemma to_dict_has_key: "k \<in> set WEIGHT_KEYS \<Longrightarrow> to_dict sw k \<noteq> None"
  unfolding to_dict_def map_of_eq_None_iff by (simp add: WEIGHT_KEYS_def)

lemma default_weights_has_key: "k \<in> set WEIGHT_KEYS \<Longrightarrow> DEFAULT_WEIGHTS k \<noteq> None"
  unfolding DEFAULT_WEIGHTS_def map_of_eq_None_iff by (simp add: WEIGHT_KEYS_def)

lemma active_weights_has_key:
  assumes "k \<in> set WEIGHT_KEYS"
  shows "\<exists>v. active_weights m w k = Some v"
proof (cases w)
  case None
  with to_dict_has_key [OF assms, of "scoring_weights m"] show ?thesis
    by (simp add: active_weights_def)
next
  case (Some ws)
  show ?thesis
  proof (cases "ws = []")
    case True
    with Some to_dict_has_key [OF assms, of "scoring_weights m"] show ?thesis
      by (simp add: active_weights_def)
  next
    case False
    from default_weights_has_key [OF assms] obtain d where "DEFAULT_WEIGHTS k = Some d" by auto
    then have "\<exists>v. (DEFAULT_WEIGHTS ++ map_of ws) k = Some v"
      by (cases "map_of ws k") (simp_all add: map_add_def)
    with Some False show ?thesis by (simp add: active_weights_def)
  qed
qed



lemma keys_mem:
  "''location_region'' \<in> set WEIGHT_KEYS" "''location_postcode'' \<in> set WEIGHT_KEYS"
  "''price_range'' \<in> set WEIGHT_KEYS" "''price_psf'' \<in> set WEIGHT_KEYS"
  "''yield_minimum'' \<in> set WEIGHT_KEYS" "''yield_target'' \<in> set WEIGHT_KEYS"
  "''property_size'' \<in> set WEIGHT_KEYS" "''property_condition'' \<in> set WEIGHT_KEYS"
  "''property_tenure'' \<in> set WEIGHT_KEYS" "''risk_profile'' \<in> set WEIGHT_KEYS"
  by (simp_all add: WEIGHT_KEYS_def)



text \<open>
  On a deal-size range of zero width that the asking price hits, the price scorer raises
  \<open>ZeroDivisionError\<close>, and so does \<open>score_listing\<close>, whatever the weights.
\<close>

lemma zero_width_range_raises:
  assumes "zero_width_range_hit l m"
  shows "price_range_score l m = Inl ZeroDivisionError"
    and "score_listing l m w = Inl ZeroDivisionError"
proof -
  show p: "price_range_score l m = Inl ZeroDivisionError"
    using assms
    by (simp add: zero_width_range_hit_def price_range_score_def Let_def truthy_int_def)
  from active_weights_has_key [OF keys_mem(1)] obtain a
    where a: "active_weights m w ''location_region'' = Some a" by auto
  from active_weights_has_key [OF keys_mem(2)] obtain b
    where b: "active_weights m w ''location_postcode'' = Some b" by auto
  from a b obtain fs where loc: "score_location l m (active_weights m w) = Inr fs"
    by (simp add: score_location_def then_factors_def one_factor_def make_factor_def)
  have pr: "score_price l m (active_weights m w) = Inl ZeroDivisionError"
    using p by (simp add: score_price_def then_factors_def)
  show "score_listing l m w = Inl ZeroDivisionError"
    by (simp add: score_listing_def Let_def loc pr then_factors_def)
qed










subsection \<open>Price-range sub-score inside the range\<close>




subsection \<open>Weight precedence\<close>

lemma reweighted_sub_scores:
  "region_score example_listing reweighted_mandate = 1"
  "postcode_score example_listing reweighted_mandate = 1"
  "price_range_score example_listing reweighted_mandate = Inr (14 / 15)"
  "psf_score example_listing reweighted_mandate = 1"
  "min_yield_score example_listing reweighted_mandate = 1"
  "target_yield_score example_listing reweighted_mandate = 33 / 35"
  "size_score example_listing reweighted_mandate = 1"
  "condition_score example_listing reweighted_mandate = 1"
  "tenure_score example_listing reweighted_mandate = 1"
  "risk_score example_listing reweighted_mandate = 8 / 10"
  by (simp_all add: sub_score_defs example_defs accessor_defs Let_def)

lemma override_weights:
  "active_weights reweighted_mandate (Some [(''price_range'', 1 / 2)]) =
     DEFAULT_WEIGHTS ++ map_of [(''price_range'', 1 / 2)]"
  by (simp add: active_weights_def)

text \<open>
  Claim C4 (weights not named by a partial override fall back to the mandate's own
  weights) evaluated on the code: with the mandate's region weight set to 0.40 and an
  override that names only \<open>price_range\<close>, the region factor is weighted by the default
  0.15, not by the mandate's 0.40.
\<close>

theorem partial_override_ignores_mandate_weights:
  "to_dict (scoring_weights reweighted_mandate) ''location_region'' = Some (40 / 100) \<and>
   active_weights reweighted_mandate None ''location_region'' = Some (40 / 100) \<and>
   active_weights reweighted_mandate (Some [(''price_range'', 1 / 2)]) ''price_range'' =
     Some (1 / 2) \<and>
   active_weights reweighted_mandate (Some [(''price_range'', 1 / 2)]) ''location_region'' =
     Some (15 / 100) \<and>
   DEFAULT_WEIGHTS ''location_region'' = Some (15 / 100) \<and>
   result_weights
     (score_listing example_listing reweighted_mandate (Some [(''price_range'', 1 / 2)])) =
     [(''region_match'', 15 / 100), (''postcode_match'', 10 / 100), (''price_range'', 1 / 2),
      (''price_psf'', 5 / 100), (''yield_minimum'', 15 / 100), (''yield_target'', 10 / 100),
      (''property_size'', 5 / 100), (''property_condition'', 10 / 100),
      (''property_tenure'', 5 / 100), (''risk_profile'', 5 / 100)]"
proof -
  have a: "to_dict (scoring_weights reweighted_mandate) ''location_region'' = Some (40 / 100)"
    "active_weights reweighted_mandate None ''location_region'' = Some (40 / 100)"
    "active_weights reweighted_mandate (Some [(''price_range'', 1 / 2)]) ''price_range'' =
       Some (1 / 2)"
    "active_weights reweighted_mandate (Some [(''price_range'', 1 / 2)]) ''location_region'' =
       Some (15 / 100)"
    "DEFAULT_WEIGHTS ''location_region'' = Some (15 / 100)"
    by (simp_all add: active_weights_def to_dict_def DEFAULT_WEIGHTS_def map_add_def
        reweighted_mandate_def example_mandate_def)
  have b: "result_weights
     (score_listing example_listing reweighted_mandate (Some [(''price_range'', 1 / 2)])) =
     [(''region_match'', 15 / 100), (''postcode_match'', 10 / 100), (''price_range'', 1 / 2),
      (''price_psf'', 5 / 100), (''yield_minimum'', 15 / 100), (''yield_target'', 10 / 100),
      (''property_size'', 5 / 100), (''property_condition'', 10 / 100),
      (''property_tenure'', 5 / 100), (''risk_profile'', 5 / 100)]"
    by (simp add: result_weights_def score_listing_def Let_def override_weights
        reweighted_sub_scores scorer_defs DEFAULT_WEIGHTS_def map_add_def)
  from a b show ?thesis by simp
qed

subsection \<open>Excluded region without an include list\<close>

text \<open>
  Claim C5 (an excluded region scores 0.0 also when the include list is empty) evaluated
  on the code: for a mandate that excludes Wales and has no include list, a listing in
  Wales gets region sub-score 1.0, while the hard filter and the rejection rule both
  treat the region as excluded; with a non-empty include list the same listing gets 0.0.
\<close>

theorem excluded_region_scores_one_without_include_list:
  "listing_region wales_listing \<in> set (exclude_regions (geographic exclusion_only_mandate)) \<and>
   regions (geographic exclusion_only_mandate) = [] \<and>
   region_score wales_listing exclusion_only_mandate = 1 \<and>
   \<not> accepts_location exclusion_only_mandate (listing_region wales_listing)
       (postcode_area wales_listing) \<and>
   check_location_excluded wales_listing exclusion_only_mandate =
     Some \<lparr>category = RC_LOCATION, severity = HARD, code = ''REGION_EXCLUDED''\<rparr> \<and>
   region_score wales_listing example_mandate = 0 \<and>
   score_location wales_listing exclusion_only_mandate DEFAULT_WEIGHTS =
     Inr [\<lparr>sf_category = SC_LOCATION, sf_name = ''region_match'', sf_score = 1,
           sf_weight = 15 / 100, weighted_score = 15 / 100\<rparr>,
          \<lparr>sf_category = SC_LOCATION, sf_name = ''postcode_match'', sf_score = 1,
           sf_weight = 10 / 100, weighted_score = 10 / 100\<rparr>]"
proof -
  have a: "listing_region wales_listing \<in> set (exclude_regions (geographic exclusion_only_mandate))"
    "regions (geographic exclusion_only_mandate) = []"
    "region_score wales_listing exclusion_only_mandate = 1"
    "\<not> accepts_location exclusion_only_mandate (listing_region wales_listing)
       (postcode_area wales_listing)"
    "check_location_excluded wales_listing exclusion_only_mandate =
       Some \<lparr>category = RC_LOCATION, severity = HARD, code = ''REGION_EXCLUDED''\<rparr>"
    "region_score wales_listing example_mandate = 0"
    "postcode_score wales_listing exclusion_only_mandate = 1"
    by (simp_all add: region_score_def postcode_score_def accepts_location_def
        check_location_excluded_def Let_def listing_region_def wales_listing_def
        exclusion_only_mandate_def example_mandate_def example_listing_def)
  have b: "score_location wales_listing exclusion_only_mandate DEFAULT_WEIGHTS =
     Inr [\<lparr>sf_category = SC_LOCATION, sf_name = ''region_match'', sf_score = 1,
           sf_weight = 15 / 100, weighted_score = 15 / 100\<rparr>,
          \<lparr>sf_category = SC_LOCATION, sf_name = ''postcode_match'', sf_score = 1,
           sf_weight = 10 / 100, weighted_score = 10 / 100\<rparr>]"
    by (simp add: scorer_defs a DEFAULT_WEIGHTS_def)
  from a b show ?thesis by simp
qed

subsection \<open>Conviction\<close>

lemma price_conviction_weights: "list_all (\<lambda>f. 0 < cf_weight f) (assess_price_conviction l m)"
  by (simp add: assess_price_conviction_def Let_def split: option.splits)

lemma yield_conviction_weights: "list_all (\<lambda>f. 0 < cf_weight f) (assess_yield_conviction l m)"
  by (simp add: assess_yield_conviction_def Let_def split: option.splits)

lemma location_conviction_weights:
  "list_all (\<lambda>f. 0 < cf_weight f) (assess_location_conviction l m)"
  by (simp add: assess_location_conviction_def Let_def split: option.splits)

lemma property_conviction_weights:
  "list_all (\<lambda>f. 0 < cf_weight f) (assess_property_conviction l m)"
  by (simp add: assess_property_conviction_def Let_def split: option.splits)

lemma risk_conviction_weights: "list_all (\<lambda>f. 0 < cf_weight f) (assess_risk_conviction l m)"
  by (simp add: assess_risk_conviction_def Let_def split: option.splits)

lemma all_conviction_weights: "list_all (\<lambda>f. 0 < cf_weight f) (all_conviction_factors l m)"
  by (simp add: all_conviction_factors_def price_conviction_weights yield_conviction_weights
      location_conviction_weights property_conviction_weights risk_conviction_weights)

lemma sum_list_pos:
  "xs \<noteq> [] \<Longrightarrow> list_all (\<lambda>x. 0 < g x) xs \<Longrightarrow> (0::real) < sum_list (map g xs)"
proof (induction xs)
  case Nil
  then show ?case by simp
next
  case (Cons a xs)
  show ?case
  proof (cases "xs = []")
    case True
    then show ?thesis using Cons.prems by simp
  next
    case False
    then have "0 < sum_list (map g xs)" using Cons by simp
    moreover have "0 < g a" using Cons.prems by simp
    ultimately show ?thesis by simp
  qed
qed

lemma conviction_weight_sum_pos:
  "all_conviction_factors l m \<noteq> [] \<Longrightarrow>
   0 < sum_list (map cf_weight (all_conviction_factors l m))"
  by (rule sum_list_pos) (simp_all add: all_conviction_weights)

lemma conviction_level_mono:
  "f1 \<le> f2 \<Longrightarrow>
   level_rank (conviction_level_of deal p f1) \<le> level_rank (conviction_level_of deal p f2)"
  by (simp add: conviction_level_of_def)

text \<open>
  Claim C6. With \<open>confidence\<close> the sum of the weights of the met factors over the sum of
  all factor weights (a positive sum whenever there is a factor; 0 when there is none):
  when the hard filters pass, the final confidence of the assessment is
  \<open>0.7 \<times> (total_score / 100) + 0.3 \<times> confidence\<close>; when they fail it is \<open>0.3 \<times> confidence\<close>
  and the level is NONE whatever the confidence; and the level is the value at the final
  confidence of a function that is monotone non-decreasing in it (NONE, LOW, MEDIUM,
  HIGH in increasing order).
\<close>

theorem conviction_final_confidence_and_level:
  "(all_conviction_factors l m \<noteq> [] \<longrightarrow>
      0 < sum_list (map cf_weight (all_conviction_factors l m))) \<and>
   (passes_hard_filters s \<longrightarrow>
      confidence_score (assess_conviction l m s) =
        7 / 10 * (total_score s / 100) +
        3 / 10 * (if all_conviction_factors l m = [] then 0
                  else sum_list (map cf_weight (filter met (all_conviction_factors l m))) /
                       sum_list (map cf_weight (all_conviction_factors l m)))) \<and>
   (\<not> passes_hard_filters s \<longrightarrow>
      confidence_score (assess_conviction l m s) =
        3 / 10 * (if all_conviction_factors l m = [] then 0
                  else sum_list (map cf_weight (filter met (all_conviction_factors l m))) /
                       sum_list (map cf_weight (all_conviction_factors l m))) \<and>
      level (assess_conviction l m s) = NONE) \<and>
   level (assess_conviction l m s) =
     conviction_level_of (deal_criteria m) (passes_hard_filters s)
       (confidence_score (assess_conviction l m s)) \<and>
   (\<forall>deal p f1 f2. f1 \<le> f2 \<longrightarrow>
      level_rank (conviction_level_of deal p f1) \<le> level_rank (conviction_level_of deal p f2))"
proof (cases "all_conviction_factors l m = []")
  case True
  then show ?thesis
    by (simp add: assess_conviction_def Let_def conviction_level_mono conviction_level_of_def)
next
  case False
  with conviction_weight_sum_pos [of l m]
  have "0 < sum_list (map cf_weight (all_conviction_factors l m))"
    "sum_list (map cf_weight (all_conviction_factors l m)) \<noteq> 0" by simp_all
  with False show ?thesis
    by (simp add: assess_conviction_def Let_def conviction_level_mono conviction_level_of_def)
qed

lemma example_conviction_factors:
  "all_conviction_factors example_listing example_mandate =
     [\<lparr>cf_name = ''price_positioning'', met = True, cf_weight = 15 / 100\<rparr>,
      \<lparr>cf_name = ''yield_buffer'', met = True, cf_weight = 20 / 100\<rparr>,
      \<lparr>cf_name = ''yield_target'', met = True, cf_weight = 15 / 100\<rparr>,
      \<lparr>cf_name = ''region_match'', met = True, cf_weight = 15 / 100\<rparr>,
      \<lparr>cf_name = ''condition_fit'', met = True, cf_weight = 15 / 100\<rparr>,
      \<lparr>cf_name = ''income_status'', met = True, cf_weight = 10 / 100\<rparr>,
      \<lparr>cf_name = ''tenure_security'', met = True, cf_weight = 10 / 100\<rparr>]"
  by (simp add: all_conviction_factors_def assess_price_conviction_def
      assess_yield_conviction_def assess_location_conviction_def
      assess_property_conviction_def assess_risk_conviction_def Let_def
      example_mandate_def example_listing_def accessor_defs)

theorem conviction_final_confidence_and_level_witness:
  "passes_hard_filters passing_score \<and> total_score passing_score = 80 \<and>
   all_conviction_factors example_listing example_mandate \<noteq> [] \<and>
   confidence_score (assess_conviction example_listing example_mandate passing_score) = 86 / 100 \<and>
   level (assess_conviction example_listing example_mandate passing_score) = HIGH \<and>
   \<not> passes_hard_filters failing_score \<and>
   confidence_score (assess_conviction example_listing example_mandate failing_score) = 3 / 10 \<and>
   level (assess_conviction example_listing example_mandate failing_score) = NONE \<and>
   (3 / 10 :: real) \<le> 86 / 100 \<and>
   level_rank (conviction_level_of (deal_criteria example_mandate) True (3 / 10)) \<le>
     level_rank (conviction_level_of (deal_criteria example_mandate) True (86 / 100))"
proof -
  have p: "passes_hard_filters passing_score" "total_score passing_score = 80"
    "\<not> passes_hard_filters failing_score"
    by (simp_all add: passing_score_def failing_score_def)
  have le: "(3 / 10 :: real) \<le> 86 / 100" by simp
  from conviction_final_confidence_and_level [of example_listing example_mandate passing_score] p
  have a: "confidence_score (assess_conviction example_listing example_mandate passing_score) =
      86 / 100"
    and mono: "\<And>deal p f1 f2. f1 \<le> f2 \<Longrightarrow>
      level_rank (conviction_level_of deal p f1) \<le> level_rank (conviction_level_of deal p f2)"
    by (simp_all add: example_conviction_factors)
  from conviction_final_confidence_and_level [of example_listing example_mandate passing_score] a p
  have b: "level (assess_conviction example_listing example_mandate passing_score) = HIGH"
    by (simp add: conviction_level_of_def example_mandate_def)
  from conviction_final_confidence_and_level [of example_listing example_mandate failing_score] p
  have c: "confidence_score (assess_conviction example_listing example_mandate failing_score) =
      3 / 10"
    "level (assess_conviction example_listing example_mandate failing_score) = NONE"
    by (simp_all add: example_conviction_factors)
  from p a b c le mono [OF le] show ?thesis by (simp add: example_conviction_factors)
qed

subsection \<open>Recommendation\<close>

lemma low_conviction_passes_filters:
  "level (assess_conviction l m s) = LOW \<Longrightarrow> passes_hard_filters s"
  by (auto simp add: assess_conviction_def Let_def conviction_level_of_def split: if_splits)

text \<open>
  Claim C1. The action is given by the decision table, top-down and first match wins:
  a hard rejection gives PASS; else HIGH conviction with a score at or above the pursue
  threshold gives PURSUE; else MEDIUM conviction, or HIGH conviction with a score at or
  above the consider threshold, gives CONSIDER; else LOW conviction with the hard
  filters passed and a score at or above the minimum overall score gives WATCH;
  otherwise PASS. This holds of \<open>determine_action\<close> on any inputs, and for every listing
  and mandate of the recommendation that \<open>generate_recommendation\<close> returns, where the
  action is moreover a function of the rejected flag, the conviction level, the total
  score and the deal criteria alone, since LOW conviction is only assigned when the hard
  filters pass.
\<close>

theorem recommendation_action_by_table:
  "determine_action s c r m =
     spec_action_table (rejected r) (level c) (total_score s) (passes_hard_filters s)
       (deal_criteria m) \<and>
   (generate_recommendation l m = Inr rcm \<longrightarrow>
      score_listing l m None = Inr (dr_scoring rcm) \<and>
      dr_conviction rcm = assess_conviction l m (dr_scoring rcm) \<and>
      dr_rejection rcm = evaluate_rejection l m None False \<and>
      dr_action rcm =
        spec_action_table (rejected (dr_rejection rcm)) (level (dr_conviction rcm))
          (total_score (dr_scoring rcm)) (passes_hard_filters (dr_scoring rcm))
          (deal_criteria m) \<and>
      dr_action rcm =
        spec_action_table (rejected (dr_rejection rcm)) (level (dr_conviction rcm))
          (total_score (dr_scoring rcm)) True (deal_criteria m))"
proof -
  have a: "determine_action s c r m =
     spec_action_table (rejected r) (level c) (total_score s) (passes_hard_filters s)
       (deal_criteria m)" for s c r
    by (simp add: determine_action_def spec_action_table_def Let_def)
  have b: "spec_action_table rj (level (assess_conviction l m sc)) t (passes_hard_filters sc) d =
           spec_action_table rj (level (assess_conviction l m sc)) t True d" for rj sc t d
    using low_conviction_passes_filters [of l m sc] by (auto simp add: spec_action_table_def)
  show ?thesis
    using a b
    by (auto simp add: generate_recommendation_def Let_def split: sum.splits)
qed

lemma example_deal_criteria:
  "deal_criteria example_mandate =
     \<lparr>min_overall_score = 40, pursue_score_threshold = 75, consider_score_threshold = 60,
      high_conviction_threshold = 80 / 100, medium_conviction_threshold = 60 / 100,
      low_conviction_threshold = 40 / 100\<rparr>"
  by (simp add: example_mandate_def)

lemma example_level:
  "passes_hard_filters s \<Longrightarrow> total_score s = 2039 / 21 \<Longrightarrow>
   level (assess_conviction example_listing example_mandate s) = HIGH"
  by (simp add: assess_conviction_def Let_def example_conviction_factors conviction_level_of_def
      example_deal_criteria)

lemma example_score_fields:
  "score_listing example_listing example_mandate None = Inr s \<Longrightarrow>
   passes_hard_filters s \<and> total_score s = 2039 / 21"
  unfolding example_score by auto

lemma example_rejection:
  "evaluate_rejection example_listing example_mandate None False =
     \<lparr>rr_listing_id = ''L1'', rr_mandate_id = ''M1'', rejected = False, reasons = []\<rparr>"
proof -
  have "check_asset_class_mismatch example_listing example_mandate = None"
    "check_location_excluded example_listing example_mandate = None"
    "check_price_too_high example_listing example_mandate = None"
    "check_price_too_low example_listing example_mandate = None"
    "check_yield_insufficient example_listing example_mandate = None"
    "check_tenure_unacceptable example_listing example_mandate = None"
    "check_condition_unacceptable example_listing example_mandate = None"
    "check_location_outside_target example_listing example_mandate = None"
    "check_unit_count example_listing example_mandate = None"
    "check_data_quality example_listing example_mandate = None"
    by (simp_all add: check_asset_class_mismatch_def check_location_excluded_def
        check_price_too_high_def check_price_too_low_def check_yield_insufficient_def
        check_tenure_unacceptable_def check_condition_unacceptable_def
        check_location_outside_target_def check_unit_count_def check_data_quality_def
        Let_def example_postcode_area accessor_defs example_mandate_def example_listing_def)
  then show ?thesis
    by (simp add: evaluate_rejection_def REJECTION_RULES_def Let_def example_mandate_def
        example_listing_def)
qed

theorem recommendation_action_by_table_witness:
  "recommendation_action (generate_recommendation example_listing example_mandate) = Some PURSUE"
proof -
  obtain rcm where g: "generate_recommendation example_listing example_mandate = Inr rcm"
    by (simp add: generate_recommendation_def example_score Let_def)
  from recommendation_action_by_table [of _ _ _ example_mandate example_listing rcm] g
  have s: "score_listing example_listing example_mandate None = Inr (dr_scoring rcm)"
    and c: "dr_conviction rcm = assess_conviction example_listing example_mandate (dr_scoring rcm)"
    and r: "dr_rejection rcm = evaluate_rejection example_listing example_mandate None False"
    and a: "dr_action rcm =
        spec_action_table (rejected (dr_rejection rcm)) (level (dr_conviction rcm))
          (total_score (dr_scoring rcm)) True (deal_criteria example_mandate)"
    by blast+
  from example_score_fields [OF s]
  have t: "passes_hard_filters (dr_scoring rcm)" "total_score (dr_scoring rcm) = 2039 / 21"
    by simp_all
  from c example_level [OF t] have lv: "level (dr_conviction rcm) = HIGH" by simp
  from r have rj: "\<not> rejected (dr_rejection rcm)" by (simp add: example_rejection)
  from a t lv rj have "dr_action rcm = PURSUE"
    by (simp add: spec_action_table_def example_deal_criteria)
  with g show ?thesis by (simp add: recommendation_action_def)
qed

end
